theory Spec2Isabelle
  imports Complex_Main
begin

section \<open>Numbers, constants and imported helpers\<close>

text \<open>
  The development embeds the second (four-corner) variant of
  \<^verbatim>\<open>src/service/video-manager-impl.js\<close>: the \<^verbatim>\<open>VideoManager\<close> and
  \<^verbatim>\<open>VideoEntry\<close> classes with the docking state machine and the drag loop.
  A private member \<^verbatim>\<open>name_\<close> of the source is written \<open>name'\<close>.

  JavaScript numbers are idealised as reals. The two places where the source can
  meet a value that is not a finite number are written out: the intersection ratio
  is a \<open>number\<close>, and a division by zero yields \<open>None\<close>.
\<close>

datatype number = Finite real | NaN | PosInfinity | NegInfinity

definition VISIBILITY_PERCENT :: real where
  "VISIBILITY_PERCENT = 75"

definition DOCK_SCALE :: real where
  "DOCK_SCALE = 6 / 10"

definition DOCK_CLASS :: string where
  "DOCK_CLASS = ''i-amphtml-dockable-video-minimizing''"

definition DOCK_MARGIN :: real where
  "DOCK_MARGIN = 20"

definition FRICTION_COEFF :: real where
  "FRICTION_COEFF = 55 / 100"

definition STOP_THRESHOLD :: real where
  "STOP_THRESHOLD = 3"

text \<open>
  Modelled from the spec: \<^verbatim>\<open>isFiniteNumber\<close> is imported from \<^verbatim>\<open>../types\<close>, which is
  not among the sources. The spec (4.1) says that a ratio that is "not-a-number" is
  treated as 0; the helper answers whether its argument is a finite number.
\<close>

definition isFiniteNumber :: "number \<Rightarrow> bool" where
  "isFiniteNumber v = (case v of Finite _ \<Rightarrow> True | _ \<Rightarrow> False)"

text \<open>
  Modelled from the spec: \<^verbatim>\<open>mapRange\<close> is imported from \<^verbatim>\<open>../utils/math\<close>, which is
  not among the sources. The spec (4.3) calls it the linear map of a value from a
  source interval \<open>[min1, max1]\<close> to a target interval \<open>[min2, max2]\<close>. For a source
  interval of width zero the quotient is no finite number: the result is \<open>None\<close>.
\<close>

definition mapRange :: "real \<Rightarrow> real \<Rightarrow> real \<Rightarrow> real \<Rightarrow> real \<Rightarrow> real option" where
  "mapRange val min1 max1 min2 max2 =
     (if max1 = min1 then None
      else Some ((val - min1) * (max2 - min2) / (max1 - min1) + min2))"

datatype error = AssertionError string | TypeError

section \<open>Data model\<close>

datatype PlayingStates = PLAYING_MANUAL | PLAYING_AUTO | PAUSED

datatype MinimizePositions = POS_INLINE | TOP_LEFT | BOTTOM_LEFT | TOP_RIGHT | BOTTOM_RIGHT

datatype DockingStates = INLINE | DOCKING | DOCKED

datatype RelativePositions = INSIDE | TOP | BOTTOM

datatype ActionTrust = LOW | MEDIUM | HIGH

text \<open>
  A rectangle as \<^verbatim>\<open>getBoundingClientRect\<close> and \<^verbatim>\<open>layoutRectLtwh\<close> give it: the bottom
  edge is the top edge plus the height.
\<close>

record rect =
  left :: real
  top' :: real
  width :: real
  height :: real

definition bottom :: "rect \<Rightarrow> real" where
  "bottom r = top' r + height r"

definition layoutRectLtwh :: "real \<Rightarrow> real \<Rightarrow> real \<Rightarrow> real \<Rightarrow> rect" where
  "layoutRectLtwh l t w h = \<lparr>left = l, top' = t, width = w, height = h\<rparr>"

record PositionInViewportEntryDef =
  positionRect :: "rect option"
  viewportRect :: rect
  relativePos :: RelativePositions

record point =
  x :: real
  y :: real

record dragCoordinates =
  mouse :: point
  displacement :: point
  initial :: point
  position :: point
  previous :: point
  velocity :: point

text \<open>
  Style values as the helpers of \<^verbatim>\<open>../style\<close> build them: \<^verbatim>\<open>st.px(v)\<close>, a literal
  string, and the transform \<^verbatim>\<open>translate + ' ' + scale\<close> (the translation is
  \<^verbatim>\<open>undefined\<close> when no corner is chosen; a number is \<open>None\<close> when it is not finite).
\<close>

datatype css =
    Px "real option"
  | Lit string
  | Transform "(css \<times> css) option" "real option"

record element =
  classList :: "string list"
  style :: "(string \<times> css) list"

text \<open>
  The video component is an opaque collaborator: its answers are fields, and the calls
  it receives are logged in the order they are made.
\<close>

datatype vcall = Play bool | Pause | Mute | Unmute | HideControls | ShowControls

record VideoInterface =
  vid :: nat
  supportsPlatform :: bool
  isInteractive :: bool
  supportsAnalytics :: bool
  hasAttributeDock :: bool
  hasAttributeAutoplay :: bool
  registeredActions :: "(string \<times> vcall \<times> ActionTrust) list"
  calls :: "vcall list"

text \<open>
  Layout readings that a handler takes from the viewport service and from the DOM
  at the time it runs.
\<close>

record layout =
  getWidth :: real
  getHeight :: real
  getScrollHeight :: real
  offsetTop :: real
  offsetHeight :: real
  inlineRect :: rect
  minimizedRect :: rect

record VideoEntry =
  video :: VideoInterface
  loaded' :: bool
  isPlaying' :: bool
  isVisible' :: bool
  userInteractedWithAutoPlay' :: bool
  playCalledByAutoplay' :: bool
  pauseCalledByAutoplay' :: bool
  initialRect' :: "rect option"
  minimizePosition' :: MinimizePositions
  dockingState' :: DockingStates
  visibleHeight' :: real
  internalElement' :: "element option"
  muted' :: bool
  draggingMask' :: "element option"
  pageDir' :: string
  lastPosition' :: "PositionInViewportEntryDef option"
  dragListenerInstalled' :: bool
  isTouched' :: bool
  isDragging' :: bool
  isSnapping' :: bool
  isDismissed' :: bool
  dragCoordinates' :: dragCoordinates
  hasBeenInViewBefore :: bool
  hasDocking :: bool
  hasAutoplay :: bool
  autoplayMask :: bool
  dragTicks :: nat
  snapCallbacks :: "point list"

text \<open>
  The last three fields stand for what the source leaves with the browser: whether
  the autoplay mask (with its click listener) is in the document, how many
  \<^verbatim>\<open>drag_\<close> callbacks are queued with \<^verbatim>\<open>vsync_.mutate\<close>, and the snap animations
  whose \<^verbatim>\<open>thenAlways\<close> callback is still to run (each with its target position).

  An entry is identified by its index in \<^verbatim>\<open>entries_\<close> (the array only grows), so the
  manager's reference to the docked entry is an index.
\<close>

record VideoManager =
  entries' :: "VideoEntry list option"
  scrollListenerInstalled' :: bool
  positionObserver' :: bool
  dockedVideo' :: "nat option"

section \<open>Exceptions and DOM helpers\<close>

text \<open>
  A method that can throw after it has already changed the object returns the state
  as the throw leaves it, together with the error.
\<close>

type_synonym 's outcome = "error option \<times> 's"

definition ok :: "'s \<Rightarrow> 's outcome" where
  "ok s = (None, s)"

definition throw :: "error \<Rightarrow> 's \<Rightarrow> 's outcome" where
  "throw err s = (Some err, s)"

definition andThen :: "'s outcome \<Rightarrow> ('s \<Rightarrow> 's outcome) \<Rightarrow> 's outcome" where
  "andThen r f = (case r of (None, s) \<Rightarrow> f s | (Some err, s) \<Rightarrow> (Some err, s))"

definition setStyle :: "string \<Rightarrow> css \<Rightarrow> (string \<times> css) list \<Rightarrow> (string \<times> css) list" where
  "setStyle k v s = filter (\<lambda>p. fst p \<noteq> k) s @ [(k, v)]"

definition setStyles :: "element \<Rightarrow> (string \<times> css) list \<Rightarrow> element" where
  "setStyles el kvs = el\<lparr>style := fold (\<lambda>(k, v). setStyle k v) kvs (style el)\<rparr>"

definition getStyle :: "element \<Rightarrow> string \<Rightarrow> css" where
  "getStyle el k = (case map_of (style el) k of Some v \<Rightarrow> v | None \<Rightarrow> Lit [])"

definition classList_add :: "string \<Rightarrow> element \<Rightarrow> element" where
  "classList_add c el = (if c \<in> set (classList el) then el else el\<lparr>classList := classList el @ [c]\<rparr>)"

definition classList_remove :: "string \<Rightarrow> element \<Rightarrow> element" where
  "classList_remove c el = el\<lparr>classList := filter (\<lambda>d. d \<noteq> c) (classList el)\<rparr>"

definition classList_contains :: "element \<Rightarrow> string \<Rightarrow> bool" where
  "classList_contains el c = (c \<in> set (classList el))"

text \<open>
  Modelled from the spec: \<^verbatim>\<open>dev().assert\<close> and \<^verbatim>\<open>dev().assertElement\<close> come from
  \<^verbatim>\<open>../log\<close>, which is not among the sources. The spec (7) calls a failed one a fatal
  developer assertion: it throws, with the message given.
\<close>

definition assertElement :: "element option \<Rightarrow> error + element" where
  "assertElement el = (case el of None \<Rightarrow> Inl (AssertionError ''Element expected'') | Some n \<Rightarrow> Inr n)"

definition call :: "vcall \<Rightarrow> VideoEntry \<Rightarrow> VideoEntry" where
  "call c e = e\<lparr>video := (video e)\<lparr>calls := calls (video e) @ [c]\<rparr>\<rparr>"

text \<open>Whether the last of the \<^verbatim>\<open>hideControls\<close>/\<^verbatim>\<open>showControls\<close> calls hid or showed the controls.\<close>

definition lastControlsCall :: "VideoInterface \<Rightarrow> vcall option" where
  "lastControlsCall v =
     (case filter (\<lambda>c. c = HideControls \<or> c = ShowControls) (rev (calls v)) of
        [] \<Rightarrow> None | c # _ \<Rightarrow> Some c)"

section \<open>VideoEntry: playing state and visibility\<close>

definition getPlayingState :: "VideoEntry \<Rightarrow> PlayingStates" where
  "getPlayingState e =
     (if \<not> isPlaying' e then PAUSED
      else if isPlaying' e \<and> playCalledByAutoplay' e \<and> \<not> userInteractedWithAutoPlay' e
        then PLAYING_AUTO
      else PLAYING_MANUAL)"

definition userInteractedWithAutoPlay :: "VideoEntry \<Rightarrow> bool" where
  "userInteractedWithAutoPlay e = userInteractedWithAutoPlay' e"

text \<open>
  The session managers and the analytics events of the source change no field of the
  entry or the manager and are left out of the handlers below.
\<close>

definition videoPlayed' :: "VideoEntry \<Rightarrow> VideoEntry" where
  "videoPlayed' e = e\<lparr>isPlaying' := True\<rparr>"

definition videoPaused' :: "VideoEntry \<Rightarrow> VideoEntry" where
  "videoPaused' e =
     (let e1 = e\<lparr>isPlaying' := False\<rparr>
      in if \<not> pauseCalledByAutoplay' e1 then e1 else e1\<lparr>pauseCalledByAutoplay' := False\<rparr>)"

definition videoEnded' :: "VideoEntry \<Rightarrow> VideoEntry" where
  "videoEnded' e = e\<lparr>isPlaying' := False\<rparr>"

definition autoplayLoadedVideoVisibilityChanged' :: "VideoEntry \<Rightarrow> VideoEntry" where
  "autoplayLoadedVideoVisibilityChanged' e =
     (if isVisible' e then (call (Play True) e)\<lparr>playCalledByAutoplay' := True\<rparr>
      else (call Pause e)\<lparr>pauseCalledByAutoplay' := True\<rparr>)"

definition nonAutoplayLoadedVideoVisibilityChanged' :: "VideoEntry \<Rightarrow> VideoEntry" where
  "nonAutoplayLoadedVideoVisibilityChanged' e = e"

text \<open>What a handler learns from the viewer and from the cached autoplay probe.\<close>

record ambient =
  viewerIsVisible :: bool
  supportsAutoplay :: bool

definition loadedVideoVisibilityChanged' :: "ambient \<Rightarrow> VideoEntry \<Rightarrow> VideoEntry" where
  "loadedVideoVisibilityChanged' amb e =
     (if \<not> viewerIsVisible amb then e
      else let canAutoplay = hasAutoplay e \<and> \<not> userInteractedWithAutoPlay' e
           in if canAutoplay \<and> supportsAutoplay amb
              then autoplayLoadedVideoVisibilityChanged' e
              else nonAutoplayLoadedVideoVisibilityChanged' e)"

definition videoVisibilityChanged' :: "ambient \<Rightarrow> VideoEntry \<Rightarrow> VideoEntry" where
  "videoVisibilityChanged' amb e = (if loaded' e then loadedVideoVisibilityChanged' amb e else e)"

text \<open>JavaScript's \<^verbatim>\<open>*\<close> and \<^verbatim>\<open>>=\<close> on a number that may not be finite.\<close>

definition number_times :: "number \<Rightarrow> real \<Rightarrow> number" where
  "number_times v c =
     (case v of
        Finite r \<Rightarrow> Finite (r * c)
      | NaN \<Rightarrow> NaN
      | PosInfinity \<Rightarrow> (if c > 0 then PosInfinity else if c < 0 then NegInfinity else NaN)
      | NegInfinity \<Rightarrow> (if c > 0 then NegInfinity else if c < 0 then PosInfinity else NaN))"

definition number_ge :: "number \<Rightarrow> real \<Rightarrow> bool" where
  "number_ge v c =
     (case v of Finite r \<Rightarrow> r \<ge> c | NaN \<Rightarrow> False | PosInfinity \<Rightarrow> True | NegInfinity \<Rightarrow> False)"

text \<open>
  \<^verbatim>\<open>updateVisibility\<close>: the measure step, then the mutate step, of one \<^verbatim>\<open>vsync_.run\<close>.
  The argument is the \<^verbatim>\<open>intersectionRatio\<close> of the element's intersection entry.
\<close>

definition updateVisibility_measure :: "number \<Rightarrow> VideoEntry \<Rightarrow> VideoEntry" where
  "updateVisibility_measure intersectionRatio e =
     (let visiblePercent = (if \<not> isFiniteNumber intersectionRatio then Finite 0
                            else number_times intersectionRatio 100)
      in e\<lparr>isVisible' := number_ge visiblePercent VISIBILITY_PERCENT\<rparr>)"

definition updateVisibility :: "ambient \<Rightarrow> number \<Rightarrow> VideoEntry \<Rightarrow> VideoEntry" where
  "updateVisibility amb intersectionRatio e =
     (let wasVisible = isVisible' e;
          e1 = updateVisibility_measure intersectionRatio e
      in if isVisible' e1 \<noteq> wasVisible then videoVisibilityChanged' amb e1 else e1)"

text \<open>
  \<^verbatim>\<open>videoLoaded\<close>: \<open>q\<close> is what \<^verbatim>\<open>scopedQuerySelector\<close> finds. The call of
  \<^verbatim>\<open>updateVisibility\<close> only schedules the measure for a later frame, so the test of
  \<^verbatim>\<open>isVisible_\<close> that follows it reads the old value and runs first.
\<close>

definition videoLoaded :: "ambient \<Rightarrow> number \<Rightarrow> element option \<Rightarrow> VideoEntry \<Rightarrow> VideoEntry" where
  "videoLoaded amb intersectionRatio q e =
     (let e1 = e\<lparr>loaded' := True, internalElement' := q\<rparr>;
          e2 = (if isVisible' e1 then loadedVideoVisibilityChanged' amb e1 else e1)
      in updateVisibility amb intersectionRatio e2)"

section \<open>VideoManager: the docked slot\<close>

text \<open>
  The methods of an entry that reach its manager are functions of the manager and
  of the entry's index \<open>i\<close>; they are only ever run for an entry that exists
  (\<open>i < length (entries m)\<close>).
\<close>

definition entries :: "VideoManager \<Rightarrow> VideoEntry list" where
  "entries m = (case entries' m of None \<Rightarrow> [] | Some es \<Rightarrow> es)"

definition entry :: "nat \<Rightarrow> VideoManager \<Rightarrow> VideoEntry" where
  "entry i m = entries m ! i"

definition setEntry :: "nat \<Rightarrow> VideoEntry \<Rightarrow> VideoManager \<Rightarrow> VideoManager" where
  "setEntry i e m = m\<lparr>entries' := map_option (\<lambda>es. es[i := e]) (entries' m)\<rparr>"

definition onEntry :: "nat \<Rightarrow> (VideoEntry \<Rightarrow> VideoEntry outcome) \<Rightarrow> VideoManager \<Rightarrow> VideoManager outcome" where
  "onEntry i f m = (case f (entry i m) of (r, e) \<Rightarrow> (r, setEntry i e m))"

definition bindE :: "error + 'a \<Rightarrow> ('a \<Rightarrow> 's outcome) \<Rightarrow> 's \<Rightarrow> 's outcome" where
  "bindE v f s = (case v of Inl err \<Rightarrow> throw err s | Inr a \<Rightarrow> f a)"

definition canDock :: "nat \<Rightarrow> VideoManager \<Rightarrow> bool" where
  "canDock i m = (dockedVideo' m = None \<or> dockedVideo' m = Some i)"

definition registerDocked :: "nat \<Rightarrow> VideoManager \<Rightarrow> VideoManager" where
  "registerDocked i m = m\<lparr>dockedVideo' := Some i\<rparr>"

definition unregisterDocked :: "VideoManager \<Rightarrow> VideoManager outcome" where
  "unregisterDocked m =
     (let m1 = m\<lparr>dockedVideo' := None\<rparr>
      in case entries' m1 of
           None \<Rightarrow> throw TypeError m1
         | Some es \<Rightarrow> ok (m1\<lparr>entries' := Some (map (\<lambda>e. e\<lparr>hasBeenInViewBefore := False\<rparr>) es)\<rparr>))"

section \<open>VideoEntry: docking\<close>

definition scrollMap' :: "VideoEntry \<Rightarrow> real \<Rightarrow> real \<Rightarrow> bool \<Rightarrow> error + real option" where
  "scrollMap' e min2 max2 reverse =
     (case initialRect' e of
        None \<Rightarrow> Inl TypeError
      | Some r \<Rightarrow>
          Inr (if reverse then mapRange (visibleHeight' e) (height r) 0 min2 max2
               else mapRange (visibleHeight' e) 0 (height r) min2 max2))"

definition updateDockableVideoPosition' ::
    "layout \<Rightarrow> PositionInViewportEntryDef \<Rightarrow> VideoEntry \<Rightarrow> VideoEntry outcome" where
  "updateDockableVideoPosition' lay newPos e =
     (let isLtr = (pageDir' e = ''ltr'');
          isBottom = (relativePos newPos = BOTTOM);
          isTop = (relativePos newPos = TOP);
          isInside = (relativePos newPos = INSIDE);
          e1 = e\<lparr>lastPosition' := Some newPos\<rparr>
      in bindE
          (case positionRect newPos of
             Some pr \<Rightarrow> Inr pr
           | None \<Rightarrow>
              (case initialRect' e1 of
                 None \<Rightarrow> Inl TypeError
               | Some r \<Rightarrow>
                   Inr (if isBottom
                        then layoutRectLtwh (left r) (getHeight lay) (width r) (height r)
                        else layoutRectLtwh (left r) (- height r) (width r) (height r))))
          (\<lambda>pr.
            let e2 = e1\<lparr>lastPosition' := Some (newPos\<lparr>positionRect := Some pr\<rparr>)\<rparr>;
                docViewTop = top' (viewportRect newPos);
                docViewBottom = bottom (viewportRect newPos);
                elemTop = top' pr;
                elemBottom = bottom pr;
                e3 = e2\<lparr>visibleHeight' :=
                        (if elemTop \<le> docViewTop then elemBottom - docViewTop
                         else if elemBottom \<ge> docViewBottom then docViewBottom - elemTop
                         else elemBottom - elemTop)\<rparr>
            in bindE
                (if hasBeenInViewBefore e3 then Inr True
                 else (case initialRect' e3 of
                         None \<Rightarrow> Inl TypeError
                       | Some r \<Rightarrow> Inr (visibleHeight' e3 = height r)))
                (\<lambda>seen.
                  let e4 = e3\<lparr>hasBeenInViewBefore := seen\<rparr>;
                      spaceOnTop = offsetTop lay;
                      spaceOnBottom = getScrollHeight lay - spaceOnTop - offsetHeight lay
                  in if (isBottom \<and> spaceOnTop < getHeight lay)
                        \<or> (isTop \<and> spaceOnBottom < getHeight lay)
                        \<or> offsetHeight lay > getHeight lay
                     then ok (e4\<lparr>minimizePosition' := POS_INLINE\<rparr>)
                     else if minimizePosition' e4 = POS_INLINE \<and> \<not> isInside then
                       (if isTop
                        then ok (e4\<lparr>minimizePosition' := (if isLtr then TOP_RIGHT else TOP_LEFT)\<rparr>)
                        else if isBottom
                        then ok (e4\<lparr>minimizePosition' := (if isLtr then BOTTOM_RIGHT else BOTTOM_LEFT)\<rparr>)
                        else ok e4)
                     else if isInside then ok (e4\<lparr>minimizePosition' := POS_INLINE\<rparr>)
                     else ok e4)
                e3)
          e1)"

definition initializeDocking' :: "nat \<Rightarrow> VideoManager \<Rightarrow> VideoManager outcome" where
  "initializeDocking' i m =
     (let e = entry i m
      in case internalElement' e of
           None \<Rightarrow> throw TypeError m
         | Some el \<Rightarrow>
            (let el1 = classList_add DOCK_CLASS el;
                 e1 = call HideControls (e\<lparr>internalElement' := Some el1\<rparr>)
             in case initialRect' e1 of
                  None \<Rightarrow> throw TypeError (setEntry i e1 m)
                | Some r \<Rightarrow>
                   (let el2 = setStyles el1
                                [(''height'', Px (Some (height r))),
                                 (''width'', Px (Some (width r))),
                                 (''maxWidth'', Px (Some (width r)))];
                        e2 = e1\<lparr>internalElement' := Some el2, dockingState' := DOCKING\<rparr>
                    in ok (registerDocked i (setEntry i e2 m)))))"

definition finishDocking' :: "nat \<Rightarrow> VideoManager \<Rightarrow> VideoManager outcome" where
  "finishDocking' i m =
     (let e = entry i m
      in case internalElement' e of
           None \<Rightarrow> throw TypeError m
         | Some el \<Rightarrow>
            (let el1 = classList_remove DOCK_CLASS el;
                 el2 = el1\<lparr>style := []\<rparr>;
                 e1 = e\<lparr>internalElement' := Some el2, dockingState' := INLINE\<rparr>;
                 e2 = call ShowControls e1
             in andThen (unregisterDocked (setEntry i e2 m))
                  (\<lambda>m1. ok (setEntry i ((entry i m1)\<lparr>dragListenerInstalled' := False\<rparr>) m1))))"

definition calcDockOffsetXLeft :: "VideoEntry \<Rightarrow> error + css" where
  "calcDockOffsetXLeft e =
     (case initialRect' e of
        None \<Rightarrow> Inl TypeError
      | Some r \<Rightarrow> map_sum id Px (scrollMap' e (left r) DOCK_MARGIN True))"

definition calcDockOffsetXRight :: "layout \<Rightarrow> VideoEntry \<Rightarrow> error + css" where
  "calcDockOffsetXRight lay e =
     (case initialRect' e of
        None \<Rightarrow> Inl TypeError
      | Some r \<Rightarrow>
         (let initialRight = getWidth lay - left r - width r;
              scaledWidth = DOCK_SCALE * width r
          in map_sum id Px
               (scrollMap' e (getWidth lay - width r - initialRight)
                  (getWidth lay - scaledWidth - DOCK_MARGIN) True)))"

definition calcDockOffsetYTop :: "layout \<Rightarrow> VideoEntry \<Rightarrow> error + css" where
  "calcDockOffsetYTop lay e =
     (let inlineTop = (if top' (inlineRect lay) < 0 then 0 else top' (inlineRect lay))
      in map_sum id Px (scrollMap' e inlineTop DOCK_MARGIN True))"

definition calcDockOffsetYBottom :: "layout \<Rightarrow> VideoEntry \<Rightarrow> error + css" where
  "calcDockOffsetYBottom lay e =
     (case initialRect' e of
        None \<Rightarrow> Inl TypeError
      | Some r \<Rightarrow>
         (let maxTop = getHeight lay - height r;
              inlineTop = (if top' (inlineRect lay) > maxTop then maxTop else top' (inlineRect lay));
              scaledHeight = DOCK_SCALE * height r
          in map_sum id Px
               (scrollMap' e inlineTop (getHeight lay - scaledHeight - DOCK_MARGIN) True)))"

section \<open>VideoEntry: dragging\<close>

definition createDraggingMask' :: "element \<Rightarrow> element" where
  "createDraggingMask' el =
     setStyles \<lparr>classList = [], style = []\<rparr>
       [(''top'', getStyle el ''top''),
        (''left'', getStyle el ''left''),
        (''bottom'', getStyle el ''bottom''),
        (''right'', getStyle el ''right''),
        (''transform'', getStyle el ''transform''),
        (''transformOrigin'', getStyle el ''transform''),
        (''borderRadius'', getStyle el ''borderRadius''),
        (''width'', getStyle el ''width''),
        (''height'', getStyle el ''height''),
        (''position'', Lit ''fixed''),
        (''z-index'', Lit ''3''),
        (''background'', Lit ''transparent'')]"

definition removeDraggingMask' :: "VideoEntry \<Rightarrow> VideoEntry" where
  "removeDraggingMask' e = (if draggingMask' e \<noteq> None then e\<lparr>draggingMask' := None\<rparr> else e)"

definition finishDragging' :: "VideoEntry \<Rightarrow> VideoEntry" where
  "finishDragging' e = removeDraggingMask' e"

text \<open>
  \<^verbatim>\<open>initializeDragging_\<close>: the rectangle read is \<open>minimizedRect lay\<close>. The listeners
  it installs are the functions \<open>listener_down\<close>, \<open>listener_up\<close> and \<open>listener_move\<close>
  below.
\<close>

definition initializeDragging' :: "layout \<Rightarrow> VideoEntry \<Rightarrow> VideoEntry outcome" where
  "initializeDragging' lay e =
     (if dragListenerInstalled' e then ok e
      else case internalElement' e of
             None \<Rightarrow> throw TypeError e
           | Some el \<Rightarrow>
              (let p = \<lparr>x = left (minimizedRect lay), y = top' (minimizedRect lay)\<rparr>;
                   dc = (dragCoordinates' e)\<lparr>initial := p, position := p, previous := p\<rparr>
               in ok (e\<lparr>dragCoordinates' := dc,
                        draggingMask' := Some (createDraggingMask' el),
                        dragListenerInstalled' := True\<rparr>)))"

text \<open>
  A DOM event as \<^verbatim>\<open>mouse_\<close> reads it: a mouse event has \<^verbatim>\<open>x\<close> and \<^verbatim>\<open>y\<close> and no
  \<^verbatim>\<open>touches\<close>; a touch event has no \<^verbatim>\<open>x\<close> and a list of touch points.
\<close>

datatype domEvent = MouseEvent real real | TouchEvent "(real \<times> real) list"

definition mouse' :: "domEvent \<Rightarrow> bool \<Rightarrow> VideoEntry \<Rightarrow> VideoEntry outcome" where
  "mouse' ev updateDisplacement e =
     (let dc = dragCoordinates' e
      in bindE
          (case ev of
             MouseEvent ex ey \<Rightarrow> Inr (if ex \<noteq> 0 then dc\<lparr>mouse := \<lparr>x = ex, y = ey\<rparr>\<rparr> else dc)
           | TouchEvent ts \<Rightarrow>
              (case ts of
                 [] \<Rightarrow> Inl TypeError
               | t # _ \<Rightarrow> Inr (dc\<lparr>mouse := \<lparr>x = fst t, y = snd t\<rparr>\<rparr>)))
          (\<lambda>dc1.
            ok (e\<lparr>dragCoordinates' :=
                  (if updateDisplacement
                   then dc1\<lparr>displacement :=
                          \<lparr>x = \<bar>x (position dc1) - x (mouse dc1)\<bar>,
                           y = \<bar>y (position dc1) - y (mouse dc1)\<bar>\<rparr>\<rparr>
                   else dc1)\<rparr>))
          e)"

definition listener_down :: "domEvent \<Rightarrow> VideoEntry \<Rightarrow> VideoEntry outcome" where
  "listener_down ev e = mouse' ev True (e\<lparr>isTouched' := True, isDragging' := False\<rparr>)"

definition listener_up :: "VideoEntry \<Rightarrow> VideoEntry" where
  "listener_up e = e\<lparr>isTouched' := False, isDragging' := False\<rparr>"

definition listener_move :: "domEvent \<Rightarrow> VideoEntry \<Rightarrow> VideoEntry outcome" where
  "listener_move ev e = mouse' ev False (e\<lparr>isDragging' := isTouched' e\<rparr>)"

definition calcSnapCorner' :: "layout \<Rightarrow> rect \<Rightarrow> VideoEntry \<Rightarrow> VideoEntry" where
  "calcSnapCorner' lay mr e =
     (let viewportCenterX = getWidth lay / 2;
          viewportCenterY = getHeight lay / 2;
          centerX = x (position (dragCoordinates' e)) + width mr / 2;
          centerY = y (position (dragCoordinates' e)) + height mr / 2
      in if centerX \<ge> viewportCenterX then
           (if centerY \<ge> viewportCenterY then e\<lparr>minimizePosition' := BOTTOM_RIGHT\<rparr>
            else if centerY < viewportCenterY then e\<lparr>minimizePosition' := TOP_RIGHT\<rparr>
            else e)
         else if centerX < viewportCenterX then
           (if centerY \<ge> viewportCenterY then e\<lparr>minimizePosition' := BOTTOM_LEFT\<rparr>
            else if centerY < viewportCenterY then e\<lparr>minimizePosition' := TOP_LEFT\<rparr>
            else e)
         else e)"

datatype elementRef = DraggingMask | InternalElement

definition deref :: "elementRef \<Rightarrow> VideoEntry \<Rightarrow> element option" where
  "deref ref e = (case ref of DraggingMask \<Rightarrow> draggingMask' e | InternalElement \<Rightarrow> internalElement' e)"

definition assignRef :: "elementRef \<Rightarrow> element \<Rightarrow> VideoEntry \<Rightarrow> VideoEntry" where
  "assignRef ref el e =
     (case ref of
        DraggingMask \<Rightarrow> e\<lparr>draggingMask' := Some el\<rparr>
      | InternalElement \<Rightarrow> e\<lparr>internalElement' := Some el\<rparr>)"

text \<open>
  \<^verbatim>\<open>animateSnap_\<close> hands the element to the animation helper (an external
  collaborator, whose intermediate style writes are not modelled) and leaves the
  \<^verbatim>\<open>thenAlways\<close> callback \<open>snapDone\<close> to run when the 200 ms animation ends.
\<close>

definition animateSnap' :: "elementRef \<Rightarrow> real \<Rightarrow> real \<Rightarrow> VideoEntry \<Rightarrow> VideoEntry outcome" where
  "animateSnap' ref newPosX newPosY e =
     bindE (assertElement (deref ref e))
       (\<lambda>_. ok (e\<lparr>snapCallbacks := snapCallbacks e @ [\<lparr>x = newPosX, y = newPosY\<rparr>]\<rparr>))
       e"

definition snapDone :: "point \<Rightarrow> VideoEntry \<Rightarrow> VideoEntry" where
  "snapDone p e =
     e\<lparr>dragCoordinates' := (dragCoordinates' e)\<lparr>position := \<lparr>x = x p, y = y p\<rparr>\<rparr>,
       isSnapping' := False\<rparr>"

definition dragMove' :: "elementRef \<Rightarrow> VideoEntry \<Rightarrow> VideoEntry outcome" where
  "dragMove' ref e =
     (let translate = (Px (Some (x (position (dragCoordinates' e)))),
                       Px (Some (y (position (dragCoordinates' e)))))
      in bindE (assertElement (deref ref e))
           (\<lambda>el. ok (assignRef ref
                        (setStyles el
                           [(''transform'', Transform (Some translate) (Some DOCK_SCALE)),
                            (''transformOrigin'', Lit ''top left''),
                            (''bottom'', Lit ''auto''),
                            (''top'', Lit ''0px''),
                            (''right'', Lit ''auto''),
                            (''left'', Lit ''0px'')])
                        e))
           e)"

text \<open>
  \<^verbatim>\<open>drag_\<close>, in the order of the source: the guard; the update of the coordinates
  (dragging, or free motion with the dismissal); then \<open>drag_snapToCorners\<close>,
  \<open>drag_updatePosition\<close> and \<open>drag_rerun\<close>, the three blocks that the source heads
  "Snap to corners", "Update the video's position" and "Re-run on every animation
  frame". \<^verbatim>\<open>MinimizePositions.DEFAULT\<close> and \<^verbatim>\<open>MinimizePositions.INVIEW\<close> are not
  members of the enumeration of this variant, so the two comparisons with them in
  the guard are false.
\<close>

definition drag_snapToCorners :: "layout \<Rightarrow> VideoEntry \<Rightarrow> VideoEntry outcome" where
  "drag_snapToCorners lay e =
     (let dragCoord = dragCoordinates' e;
          mr = minimizedRect lay
      in if \<not> isDragging' e \<and> \<not> isSnapping' e
            \<and> \<bar>x (velocity dragCoord)\<bar> \<le> STOP_THRESHOLD
            \<and> \<bar>y (velocity dragCoord)\<bar> \<le> STOP_THRESHOLD
         then
           (let top0 = DOCK_MARGIN;
                left0 = DOCK_MARGIN;
                right0 = getWidth lay - width mr - DOCK_MARGIN;
                bottom0 = getHeight lay - height mr - DOCK_MARGIN;
                e1 = calcSnapCorner' lay mr e;
                newPos = (case minimizePosition' e1 of
                            BOTTOM_RIGHT \<Rightarrow> (right0, bottom0)
                          | TOP_RIGHT \<Rightarrow> (right0, top0)
                          | BOTTOM_LEFT \<Rightarrow> (left0, bottom0)
                          | TOP_LEFT \<Rightarrow> (left0, top0)
                          | POS_INLINE \<Rightarrow> (x (position dragCoord), y (position dragCoord)))
            in if x (position dragCoord) \<noteq> fst newPos \<or> y (position dragCoord) \<noteq> snd newPos
               then andThen
                      (animateSnap' DraggingMask (fst newPos) (snd newPos) (e1\<lparr>isSnapping' := True\<rparr>))
                      (animateSnap' InternalElement (fst newPos) (snd newPos))
               else ok e1)
         else ok e)"

definition drag_updatePosition :: "VideoEntry \<Rightarrow> VideoEntry outcome" where
  "drag_updatePosition e =
     (if \<not> isSnapping' e then andThen (dragMove' DraggingMask e) (dragMove' InternalElement)
      else ok e)"

definition drag_rerun :: "VideoEntry \<Rightarrow> VideoEntry outcome" where
  "drag_rerun e = ok (e\<lparr>dragTicks := dragTicks e + 1\<rparr>)"

definition drag' :: "layout \<Rightarrow> nat \<Rightarrow> VideoManager \<Rightarrow> VideoManager outcome" where
  "drag' lay i m =
     (let e = entry i m
      in case internalElement' e of
           None \<Rightarrow> ok m
         | Some el \<Rightarrow>
            if \<not> loaded' e \<or> visibleHeight' e \<noteq> 0
               \<or> \<not> classList_contains el DOCK_CLASS \<or> dockingState' e \<noteq> DOCKED
            then ok m
            else
              (let mr = minimizedRect lay;
                   dragCoord = dragCoordinates' e;
                   rest = (\<lambda>e1. andThen (andThen (drag_snapToCorners lay e1) drag_updatePosition) drag_rerun)
               in if isDragging' e then
                    (let dc1 = dragCoord\<lparr>previous := \<lparr>x = x (position dragCoord), y = y (position dragCoord)\<rparr>\<rparr>;
                         dc2 = dc1\<lparr>position := \<lparr>x = x (mouse dc1) - x (displacement dc1),
                                                y = y (mouse dc1) - y (displacement dc1)\<rparr>\<rparr>;
                         dc3 = dc2\<lparr>velocity := \<lparr>x = x (position dc2) - x (previous dc2),
                                                y = y (position dc2) - y (previous dc2)\<rparr>\<rparr>;
                         vidCenterX = x (position dc3) + width mr / 2;
                         vidCenterY = y (position dc3) + height mr / 2;
                         e1 = e\<lparr>dragCoordinates' := dc3\<rparr>;
                         e2 = (if vidCenterX > getWidth lay \<or> vidCenterX < 0
                                  \<or> vidCenterY > getHeight lay \<or> vidCenterY < 0
                               then e1\<lparr>isDismissed' := True\<rparr> else e1)
                     in onEntry i rest (setEntry i e2 m))
                  else
                    (let dc1 = dragCoord\<lparr>position := \<lparr>x = x (position dragCoord) + x (velocity dragCoord),
                                                      y = y (position dragCoord) + y (velocity dragCoord)\<rparr>\<rparr>;
                         dc2 = dc1\<lparr>velocity := \<lparr>x = x (velocity dc1) * FRICTION_COEFF,
                                                y = y (velocity dc1) * FRICTION_COEFF\<rparr>\<rparr>;
                         e1 = e\<lparr>dragCoordinates' := dc2\<rparr>
                     in if isDismissed' e1 then
                          andThen (finishDocking' i (setEntry i (call Pause e1) m))
                            (\<lambda>m1. ok (setEntry i ((entry i m1)\<lparr>isDismissed' := False\<rparr>) m1))
                        else onEntry i rest (setEntry i e1 m))))"

definition animateDocking' :: "layout \<Rightarrow> nat \<Rightarrow> VideoManager \<Rightarrow> VideoManager outcome" where
  "animateDocking' lay i m =
     (let e = entry i m
      in bindE (calcDockOffsetXLeft e) (\<lambda>offsetXLeft.
         bindE (calcDockOffsetXRight lay e) (\<lambda>offsetXRight.
         bindE (calcDockOffsetYTop lay e) (\<lambda>offsetYTop.
         bindE (calcDockOffsetYBottom lay e) (\<lambda>offsetYBottom.
           let translate =
                 (case minimizePosition' e of
                    TOP_LEFT \<Rightarrow> Some (offsetXLeft, offsetYTop)
                  | TOP_RIGHT \<Rightarrow> Some (offsetXRight, offsetYTop)
                  | BOTTOM_LEFT \<Rightarrow> Some (offsetXLeft, offsetYBottom)
                  | BOTTOM_RIGHT \<Rightarrow> Some (offsetXRight, offsetYBottom)
                  | POS_INLINE \<Rightarrow> None)
           in bindE (scrollMap' e DOCK_SCALE 1 False) (\<lambda>scale.
              bindE (assertElement (internalElement' e)) (\<lambda>el.
                let e1 = e\<lparr>internalElement' := Some
                            (setStyles el
                               [(''transform'', Transform translate scale),
                                (''transformOrigin'', Lit ''top left''),
                                (''bottom'', Lit ''auto''),
                                (''top'', Lit ''0px''),
                                (''right'', Lit ''auto''),
                                (''left'', Lit ''0px'')])\<rparr>
                in if scale = Some DOCK_SCALE
                   then andThen
                          (onEntry i (initializeDragging' lay) (setEntry i (e1\<lparr>dockingState' := DOCKED\<rparr>) m))
                          (drag' lay i)
                   else ok (setEntry i ((finishDragging' e1)\<lparr>dockingState' := DOCKING\<rparr>) m))
              m) m) m) m) m) m)"

definition onDockableVideoPositionChanged ::
    "layout \<Rightarrow> PositionInViewportEntryDef \<Rightarrow> nat \<Rightarrow> VideoManager \<Rightarrow> VideoManager outcome" where
  "onDockableVideoPositionChanged lay newPos i m =
     andThen (onEntry i (updateDockableVideoPosition' lay newPos) m)
       (\<lambda>m1.
         let e = entry i m1
         in case internalElement' e of
              None \<Rightarrow> ok m1
            | Some el \<Rightarrow>
               if \<not> loaded' e \<or> initialRect' e = None
                  \<or> (getPlayingState e \<noteq> PLAYING_MANUAL \<and> \<not> classList_contains el DOCK_CLASS)
               then ok m1
               else
                 (let outOfView = (minimizePosition' e \<noteq> POS_INLINE \<and> hasBeenInViewBefore e);
                      manPlaying = (getPlayingState e = PLAYING_MANUAL);
                      paused = (getPlayingState e = PAUSED);
                      docked = classList_contains el DOCK_CLASS
                  in if outOfView \<and> (manPlaying \<or> (paused \<and> docked)) then
                       andThen
                         (if dockingState' e = INLINE \<and> canDock i m1
                          then initializeDocking' i m1 else ok m1)
                         (\<lambda>m2. if dockingState' (entry i m2) \<noteq> INLINE
                                then animateDocking' lay i m2 else ok m2)
                     else if classList_contains el DOCK_CLASS then finishDocking' i m1
                     else ok m1))"

text \<open>
  \<^verbatim>\<open>dockableVideoBuilt_\<close>: the first \<^verbatim>\<open>vsync_.run\<close> measures the initial rectangle
  (its mutate step adds a class to the outer element, which nothing in the source
  reads); the resize callback measures it again, resets the docking state and
  replays the last position.
\<close>

definition dockableVideoBuilt_measure :: "rect \<Rightarrow> VideoEntry \<Rightarrow> VideoEntry" where
  "dockableVideoBuilt_measure r e = e\<lparr>initialRect' := Some r\<rparr>"

definition dockableVideoBuilt_onResize :: "layout \<Rightarrow> rect \<Rightarrow> nat \<Rightarrow> VideoManager \<Rightarrow> VideoManager outcome" where
  "dockableVideoBuilt_onResize lay r i m =
     (let e = (dockableVideoBuilt_measure r (entry i m))\<lparr>dockingState' := INLINE\<rparr>;
          m1 = setEntry i e m
      in case lastPosition' e of
           None \<Rightarrow> ok m1
         | Some p \<Rightarrow> onDockableVideoPositionChanged lay p i m1)"

section \<open>VideoEntry: construction and autoplay\<close>

record document =
  bodyDir :: "string option"
  documentElementDir :: "string option"

definition autoplayVideoBuilt' :: "VideoEntry \<Rightarrow> VideoEntry" where
  "autoplayVideoBuilt' e = (if isInteractive (video e) then call HideControls e else e)"

definition autoplayInteractiveVideoBuilt' :: "VideoEntry \<Rightarrow> VideoEntry" where
  "autoplayInteractiveVideoBuilt' e = (call HideControls e)\<lparr>autoplayMask := True\<rparr>"

text \<open>The continuation of \<^verbatim>\<open>autoplayVideoBuilt_\<close> that runs when the autoplay probe resolves.\<close>

definition autoplayVideoBuilt_then :: "bool \<Rightarrow> VideoEntry \<Rightarrow> VideoEntry" where
  "autoplayVideoBuilt_then supports e =
     (if \<not> supports \<and> isInteractive (video e) then call ShowControls e
      else let e1 = call Mute e
           in if isInteractive (video e1) then autoplayInteractiveVideoBuilt' e1 else e1)"

definition onInteraction :: "VideoEntry \<Rightarrow> VideoEntry" where
  "onInteraction e =
     (call Unmute (call ShowControls (e\<lparr>userInteractedWithAutoPlay' := True\<rparr>)))\<lparr>autoplayMask := False\<rparr>"

definition videoBuilt' :: "document \<Rightarrow> VideoEntry \<Rightarrow> VideoEntry" where
  "videoBuilt' doc e =
     (let e1 = (if hasAutoplay e then autoplayVideoBuilt' e else e)
      in if hasDocking e1
         then e1\<lparr>pageDir' :=
                   (case bodyDir doc of
                      Some (c # cs) \<Rightarrow> c # cs
                    | _ \<Rightarrow> (case documentElementDir doc of
                              Some (c # cs) \<Rightarrow> c # cs
                            | _ \<Rightarrow> ''ltr''))\<rparr>
         else e1)"

text \<open>
  The constructor. The deferred parts of \<^verbatim>\<open>videoBuilt_\<close> (the first
  \<^verbatim>\<open>updateVisibility\<close>, the autoplay probe and the first measure of the initial
  rectangle) run later, as events of their own.
\<close>

definition VideoEntry_new :: "document \<Rightarrow> VideoInterface \<Rightarrow> VideoEntry" where
  "VideoEntry_new doc v =
     videoBuilt' doc
       \<lparr>video = v,
        loaded' = False,
        isPlaying' = False,
        isVisible' = False,
        userInteractedWithAutoPlay' = False,
        playCalledByAutoplay' = False,
        pauseCalledByAutoplay' = False,
        initialRect' = None,
        minimizePosition' = POS_INLINE,
        dockingState' = INLINE,
        visibleHeight' = 0,
        internalElement' = None,
        muted' = False,
        draggingMask' = None,
        pageDir' = ''ltr'',
        lastPosition' = None,
        dragListenerInstalled' = False,
        isTouched' = False,
        isDragging' = False,
        isSnapping' = False,
        isDismissed' = False,
        dragCoordinates' =
          \<lparr>mouse = \<lparr>x = 0, y = 0\<rparr>, displacement = \<lparr>x = 0, y = 0\<rparr>,
           initial = \<lparr>x = 0, y = 0\<rparr>, position = \<lparr>x = 0, y = 0\<rparr>,
           previous = \<lparr>x = 0, y = 0\<rparr>, velocity = \<lparr>x = 0, y = 0\<rparr>\<rparr>,
        hasBeenInViewBefore = False,
        hasDocking = hasAttributeDock v,
        hasAutoplay = hasAttributeAutoplay v,
        autoplayMask = False,
        dragTicks = 0,
        snapCallbacks = []\<rparr>"

section \<open>VideoManager\<close>

definition VideoManager_new :: VideoManager where
  "VideoManager_new =
     \<lparr>entries' = None, scrollListenerInstalled' = False,
      positionObserver' = False, dockedVideo' = None\<rparr>"

definition registerCommonActions' :: "VideoInterface \<Rightarrow> VideoInterface" where
  "registerCommonActions' v =
     v\<lparr>registeredActions := registeredActions v @
          [(''play'', Play False, MEDIUM),
           (''pause'', Pause, MEDIUM),
           (''mute'', Mute, MEDIUM),
           (''unmute'', Unmute, MEDIUM)]\<rparr>"

definition assertTrackingVideo :: "VideoInterface \<Rightarrow> VideoInterface option" where
  "assertTrackingVideo v = (if supportsAnalytics v then Some v else None)"

definition maybeInstallVisibilityObserver' :: "VideoEntry \<Rightarrow> VideoManager \<Rightarrow> VideoManager" where
  "maybeInstallVisibilityObserver' e m =
     (if \<not> hasAutoplay e \<and> assertTrackingVideo (video e) = None then m
      else if \<not> scrollListenerInstalled' m then m\<lparr>scrollListenerInstalled' := True\<rparr>
      else m)"

definition maybeInstallPositionObserver' :: "VideoEntry \<Rightarrow> VideoManager \<Rightarrow> VideoManager" where
  "maybeInstallPositionObserver' e m =
     (if \<not> hasDocking e then m
      else if \<not> positionObserver' m then m\<lparr>positionObserver' := True\<rparr>
      else m)"

text \<open>
  \<^verbatim>\<open>register\<close> changes the video (its action table) as well as the manager, so it
  returns both. The video is an object, so the assertion on it holds.
\<close>

definition register :: "document \<Rightarrow> VideoInterface \<Rightarrow> VideoManager \<Rightarrow> VideoManager \<times> VideoInterface" where
  "register doc v m =
     (let v1 = registerCommonActions' v
      in if \<not> supportsPlatform v1 then (m, v1)
         else
           (let m1 = m\<lparr>entries' := Some (entries m)\<rparr>;
                e = VideoEntry_new doc v1;
                m2 = maybeInstallVisibilityObserver' e m1;
                m3 = maybeInstallPositionObserver' e m2
            in (m3\<lparr>entries' := Some (entries m3 @ [e])\<rparr>, video e)))"

primrec getEntryForVideo_loop :: "VideoInterface \<Rightarrow> VideoEntry list \<Rightarrow> VideoEntry option" where
  "getEntryForVideo_loop v [] = None"
| "getEntryForVideo_loop v (e # es) =
     (if vid (video e) = vid v then Some e else getEntryForVideo_loop v es)"

definition getEntryForVideo' :: "VideoInterface \<Rightarrow> VideoManager \<Rightarrow> error + VideoEntry" where
  "getEntryForVideo' v m =
     (case entries' m of
        None \<Rightarrow> Inl TypeError
      | Some es \<Rightarrow>
         (case getEntryForVideo_loop v es of
            Some e \<Rightarrow> Inr e
          | None \<Rightarrow> Inl (AssertionError ''video is not registered to this video manager'')))"

definition VideoManager_getPlayingState :: "VideoInterface \<Rightarrow> VideoManager \<Rightarrow> error + PlayingStates" where
  "VideoManager_getPlayingState v m = map_sum id getPlayingState (getEntryForVideo' v m)"

definition VideoManager_userInteractedWithAutoPlay :: "VideoInterface \<Rightarrow> VideoManager \<Rightarrow> error + bool" where
  "VideoManager_userInteractedWithAutoPlay v m =
     map_sum id userInteractedWithAutoPlay (getEntryForVideo' v m)"

section \<open>The document as a sequence of events\<close>

text \<open>
  Every callback that the source registers is an event. A handler's exception ends
  that handler only; the state stays as the throw left it.
\<close>

datatype event =
    Register document VideoInterface
  | Measure nat rect
  | AutoplayProbed nat bool
  | Loaded nat ambient number "element option"
  | Playing nat
  | Paused nat
  | Ended nat
  | Muted nat
  | Unmuted nat
  | Visibility nat ambient number
  | Interaction nat
  | PositionChanged nat layout PositionInViewportEntryDef
  | Resize nat layout rect
  | PointerDown nat domEvent
  | PointerUp nat
  | PointerMove nat domEvent
  | DragTick nat layout
  | SnapEnd nat

definition target :: "event \<Rightarrow> nat option" where
  "target ev =
     (case ev of
        Register _ _ \<Rightarrow> None
      | Measure i _ \<Rightarrow> Some i
      | AutoplayProbed i _ \<Rightarrow> Some i
      | Loaded i _ _ _ \<Rightarrow> Some i
      | Playing i \<Rightarrow> Some i
      | Paused i \<Rightarrow> Some i
      | Ended i \<Rightarrow> Some i
      | Muted i \<Rightarrow> Some i
      | Unmuted i \<Rightarrow> Some i
      | Visibility i _ _ \<Rightarrow> Some i
      | Interaction i \<Rightarrow> Some i
      | PositionChanged i _ _ \<Rightarrow> Some i
      | Resize i _ _ \<Rightarrow> Some i
      | PointerDown i _ \<Rightarrow> Some i
      | PointerUp i \<Rightarrow> Some i
      | PointerMove i _ \<Rightarrow> Some i
      | DragTick i _ \<Rightarrow> Some i
      | SnapEnd i \<Rightarrow> Some i)"

text \<open>
  When an event can occur: it addresses an entry that exists; a video component
  registers once; the position observer and the resize callback exist for dockable
  videos only; a reload finds no element, the element already held, or one that
  this manager has not marked; a click needs the autoplay mask; a drag tick or the
  end of a snap needs one to be pending.
\<close>

definition enabled :: "VideoManager \<Rightarrow> event \<Rightarrow> bool" where
  "enabled m ev =
    ((case target ev of
        None \<Rightarrow> True
      | Some i \<Rightarrow> i < length (entries m))
     \<and> (case ev of
          Register _ v \<Rightarrow> vid v \<notin> set (map (\<lambda>e. vid (video e)) (entries m))
        | Measure i _ \<Rightarrow> hasDocking (entry i m)
        | AutoplayProbed i _ \<Rightarrow> hasAutoplay (entry i m)
        | Loaded i _ _ q \<Rightarrow>
            (case q of
               None \<Rightarrow> True
             | Some el \<Rightarrow> q = internalElement' (entry i m) \<or> \<not> classList_contains el DOCK_CLASS)
        | Interaction i \<Rightarrow> autoplayMask (entry i m)
        | PositionChanged i _ _ \<Rightarrow> hasDocking (entry i m)
        | Resize i _ _ \<Rightarrow> hasDocking (entry i m)
        | DragTick i _ \<Rightarrow> dragTicks (entry i m) > 0
        | SnapEnd i \<Rightarrow> snapCallbacks (entry i m) \<noteq> []
        | _ \<Rightarrow> True))"

definition step :: "VideoManager \<Rightarrow> event \<Rightarrow> VideoManager" where
  "step m ev =
     (case ev of
        Register doc v \<Rightarrow> fst (register doc v m)
      | Measure i r \<Rightarrow> setEntry i (dockableVideoBuilt_measure r (entry i m)) m
      | AutoplayProbed i b \<Rightarrow> setEntry i (autoplayVideoBuilt_then b (entry i m)) m
      | Loaded i amb ratio q \<Rightarrow> setEntry i (videoLoaded amb ratio q (entry i m)) m
      | Playing i \<Rightarrow> setEntry i (videoPlayed' (entry i m)) m
      | Paused i \<Rightarrow> setEntry i (videoPaused' (entry i m)) m
      | Ended i \<Rightarrow> setEntry i (videoEnded' (entry i m)) m
      | Muted i \<Rightarrow> setEntry i ((entry i m)\<lparr>muted' := True\<rparr>) m
      | Unmuted i \<Rightarrow> setEntry i ((entry i m)\<lparr>muted' := False\<rparr>) m
      | Visibility i amb ratio \<Rightarrow> setEntry i (updateVisibility amb ratio (entry i m)) m
      | Interaction i \<Rightarrow> setEntry i (onInteraction (entry i m)) m
      | PositionChanged i lay newPos \<Rightarrow> snd (onDockableVideoPositionChanged lay newPos i m)
      | Resize i lay r \<Rightarrow> snd (dockableVideoBuilt_onResize lay r i m)
      | PointerDown i dev \<Rightarrow> snd (onEntry i (listener_down dev) m)
      | PointerUp i \<Rightarrow> setEntry i (listener_up (entry i m)) m
      | PointerMove i dev \<Rightarrow> snd (onEntry i (listener_move dev) m)
      | DragTick i lay \<Rightarrow>
          snd (drag' lay i (setEntry i ((entry i m)\<lparr>dragTicks := dragTicks (entry i m) - 1\<rparr>) m))
      | SnapEnd i \<Rightarrow>
          (case snapCallbacks (entry i m) of
             [] \<Rightarrow> m
           | p # ps \<Rightarrow> setEntry i (snapDone p ((entry i m)\<lparr>snapCallbacks := ps\<rparr>)) m))"

fun run :: "VideoManager \<Rightarrow> event list \<Rightarrow> VideoManager option" where
  "run m [] = Some m"
| "run m (ev # evs) = (if enabled m ev then run (step m ev) evs else None)"

section \<open>Observations and scenarios\<close>

text \<open>
  The guard of \<^verbatim>\<open>drag_\<close> as a predicate: the loop body runs for an entry that is
  loaded, whose internal element carries the marker class, that is fully out of
  view and docked.
\<close>

definition draggable :: "VideoEntry \<Rightarrow> bool" where
  "draggable e =
     (loaded' e
      \<and> (case internalElement' e of None \<Rightarrow> False | Some el \<Rightarrow> classList_contains el DOCK_CLASS)
      \<and> visibleHeight' e = 0
      \<and> dockingState' e = DOCKED)"

text \<open>
  The corner of the viewport that a minimize position names (used to say which
  corner is nearest to a point).
\<close>

definition viewportCorner :: "layout \<Rightarrow> MinimizePositions \<Rightarrow> point option" where
  "viewportCorner lay c =
     (case c of
        POS_INLINE \<Rightarrow> None
      | TOP_LEFT \<Rightarrow> Some \<lparr>x = 0, y = 0\<rparr>
      | TOP_RIGHT \<Rightarrow> Some \<lparr>x = getWidth lay, y = 0\<rparr>
      | BOTTOM_LEFT \<Rightarrow> Some \<lparr>x = 0, y = getHeight lay\<rparr>
      | BOTTOM_RIGHT \<Rightarrow> Some \<lparr>x = getWidth lay, y = getHeight lay\<rparr>)"

text \<open>The scale factor in the \<^verbatim>\<open>transform\<close> style of the internal element.\<close>

definition appliedScale :: "VideoEntry \<Rightarrow> real option" where
  "appliedScale e =
     (case internalElement' e of
        None \<Rightarrow> None
      | Some el \<Rightarrow> (case getStyle el ''transform'' of Transform _ s \<Rightarrow> s | _ \<Rightarrow> None))"

text \<open>
  The scale factor that \<^verbatim>\<open>animateDocking_\<close> leaves on the internal element of entry
  \<open>i\<close> when it runs with the visible height \<open>v\<close>, everything else as in \<open>m\<close>.
\<close>

definition appliedScaleAt :: "layout \<Rightarrow> nat \<Rightarrow> VideoManager \<Rightarrow> real \<Rightarrow> real option" where
  "appliedScaleAt lay i m v =
     appliedScale (entry i (snd (animateDocking' lay i
        (setEntry i ((entry i m)\<lparr>visibleHeight' := v\<rparr>) m))))"

text \<open>
  The invariant behind the single docked video: an entry that is docking or docked,
  and an entry whose internal element carries the marker class, is the entry that
  the manager's slot refers to.
\<close>

definition hasDockClass :: "VideoEntry \<Rightarrow> bool" where
  "hasDockClass e =
     (case internalElement' e of None \<Rightarrow> False | Some el \<Rightarrow> classList_contains el DOCK_CLASS)"


text \<open>
  What the three closing blocks of \<^verbatim>\<open>drag_\<close> leave unchanged when they complete
  without an exception.
\<close>

definition drag_frame_ok :: "VideoEntry \<Rightarrow> VideoEntry outcome \<Rightarrow> bool" where
  "drag_frame_ok e r =
     (fst r = None
      \<and> draggingMask' (snd r) \<noteq> None \<and> internalElement' (snd r) \<noteq> None
      \<and> hasDockClass (snd r) = hasDockClass e
      \<and> dockingState' (snd r) = dockingState' e
      \<and> dragListenerInstalled' (snd r) = dragListenerInstalled' e
      \<and> video (snd r) = video e
      \<and> dragTicks (snd r) = dragTicks e)"

text \<open>
  A concrete document for the examples: a 600 by 800 viewport and one dockable
  video of 300 by 200, which is loaded, played by the user, seen fully in view and
  then scrolled out over the top edge.
\<close>

definition doc0 :: document where
  "doc0 = \<lparr>bodyDir = None, documentElementDir = None\<rparr>"

definition video0 :: VideoInterface where
  "video0 = \<lparr>vid = 0, supportsPlatform = True, isInteractive = True, supportsAnalytics = False,
             hasAttributeDock = True, hasAttributeAutoplay = False,
             registeredActions = [], calls = []\<rparr>"

definition video1 :: VideoInterface where
  "video1 = video0\<lparr>vid := 1\<rparr>"

definition rect0 :: rect where
  "rect0 = \<lparr>left = 50, top' = 100, width = 300, height = 200\<rparr>"

definition layout0 :: layout where
  "layout0 = \<lparr>getWidth = 600, getHeight = 800, getScrollHeight = 3000,
              offsetTop = 1000, offsetHeight = 200, inlineRect = rect0,
              minimizedRect = \<lparr>left = 400, top' = 20, width = 180, height = 120\<rparr>\<rparr>"

definition ambient0 :: ambient where
  "ambient0 = \<lparr>viewerIsVisible = True, supportsAutoplay = True\<rparr>"

definition viewport0 :: rect where
  "viewport0 = \<lparr>left = 0, top' = 0, width = 600, height = 800\<rparr>"

definition posInside :: PositionInViewportEntryDef where
  "posInside = \<lparr>positionRect = Some rect0, viewportRect = viewport0, relativePos = INSIDE\<rparr>"

definition posTop :: PositionInViewportEntryDef where
  "posTop = \<lparr>positionRect = None, viewportRect = viewport0, relativePos = TOP\<rparr>"

definition posPartial :: PositionInViewportEntryDef where
  "posPartial = \<lparr>positionRect = Some \<lparr>left = 50, top' = - 100, width = 300, height = 200\<rparr>,
                 viewportRect = viewport0, relativePos = TOP\<rparr>"

definition events_playing :: "event list" where
  "events_playing =
     [Register doc0 video0, Measure 0 rect0,
      Loaded 0 ambient0 (Finite 1) (Some \<lparr>classList = [], style = []\<rparr>),
      Playing 0, PositionChanged 0 layout0 posInside]"

definition events_docked :: "event list" where
  "events_docked = events_playing @ [PositionChanged 0 layout0 posTop]"

definition events_released :: "event list" where
  "events_released = events_docked @
     [PointerDown 0 (MouseEvent 450 60), PointerMove 0 (MouseEvent 470 50),
      DragTick 0 layout0, PointerUp 0]"

definition state_after :: "event list \<Rightarrow> VideoManager" where
  "state_after evs = (case run VideoManager_new evs of Some m \<Rightarrow> m | None \<Rightarrow> VideoManager_new)"


text \<open>
  The docked video is scrolled partly back into view and the drag loop stops; the next
  position change scrolls it out of view again.
\<close>

definition events_redock_prefix :: "event list" where
  "events_redock_prefix = events_docked @
     [DragTick 0 layout0, PositionChanged 0 layout0 posPartial, DragTick 0 layout0]"

text \<open>
  The docked video is pressed at (500, 90), dragged until the pointer is at (20, 20)
  in a viewport of 800 by 600, held there for two frames and let go: it rests with its
  centre at (10, 10).
\<close>

definition layout1 :: layout where
  "layout1 = layout0\<lparr>getWidth := 800, getHeight := 600\<rparr>"

definition events_let_go :: "event list" where
  "events_let_go = events_docked @
     [PointerDown 0 (MouseEvent 500 90), PointerMove 0 (MouseEvent 20 20),
      DragTick 0 layout1, DragTick 0 layout1, PointerUp 0]"

text \<open>
  The docked video is pressed at (450, 60) and the pointer is moved to the left edge of
  the viewport, where the mouse event has \<^verbatim>\<open>x\<close> equal to 0.
\<close>

definition events_left_edge :: "event list" where
  "events_left_edge = events_docked @
     [PointerDown 0 (MouseEvent 450 60), PointerMove 0 (MouseEvent 0 50)]"

text \<open>As \<open>events_playing\<close>, for a video whose element has an inline style of its own.\<close>

definition events_styled :: "event list" where
  "events_styled =
     [Register doc0 video0, Measure 0 rect0,
      Loaded 0 ambient0 (Finite 1) (Some \<lparr>classList = [], style = [(''opacity'', Lit ''0.5'')]\<rparr>),
      Playing 0, PositionChanged 0 layout0 posInside]"

section \<open>Basic facts about outcomes and entries\<close>

lemma andThen_ok [simp]: "andThen (ok s) f = f s"
  by (simp add: andThen_def ok_def)
lemma andThen_None [simp]: "andThen (None, s) f = f s"
  by (simp add: andThen_def)
lemma andThen_Some [simp]: "andThen (Some err, s) f = (Some err, s)"
  by (simp add: andThen_def)
lemma andThen_throw [simp]: "andThen (throw err s) f = throw err s"
  by (simp add: andThen_def throw_def)
lemma bindE_Inr [simp]: "bindE (Inr a) f s = f a"
  by (simp add: bindE_def)
lemma bindE_Inl [simp]: "bindE (Inl err) f s = throw err s"
  by (simp add: bindE_def)
lemma snd_ok [simp]: "snd (ok s) = s" by (simp add: ok_def)
lemma fst_ok [simp]: "fst (ok s) = None" by (simp add: ok_def)
lemma snd_throw [simp]: "snd (throw err s) = s" by (simp add: throw_def)
lemma fst_throw [simp]: "fst (throw err s) = Some err" by (simp add: throw_def)

lemma snd_andThen_preserves:
  assumes "\<And>s. Q (snd (f s)) = Q s"
  shows "Q (snd (andThen r f)) = Q (snd r)"
  using assms by (cases r) (auto simp: andThen_def split: option.splits)

lemma entries_setEntry [simp]: "entries (setEntry i e m) = (entries m)[i := e]"
  by (cases "entries' m") (simp_all add: entries_def setEntry_def)
lemma dockedVideo_setEntry [simp]: "dockedVideo' (setEntry i e m) = dockedVideo' m"
  by (simp add: setEntry_def)
lemma entry_setEntry_same [simp]: "i < length (entries m) \<Longrightarrow> entry i (setEntry i e m) = e"
  by (simp add: entry_def)
lemma entry_setEntry_other [simp]: "j \<noteq> i \<Longrightarrow> entry j (setEntry i e m) = entry j m"
  by (simp add: entry_def)
lemma setEntry_setEntry [simp]: "setEntry i e (setEntry i e' m) = setEntry i e m"
  by (cases "entries' m") (simp_all add: setEntry_def)
lemma snd_onEntry: "snd (onEntry i f m) = setEntry i (snd (f (entry i m))) m"
  by (simp add: onEntry_def split: prod.splits)
lemma fst_onEntry: "fst (onEntry i f m) = fst (f (entry i m))"
  by (simp add: onEntry_def split: prod.splits)

lemma dragCoordinates_assignRef [simp]: "dragCoordinates' (assignRef ref el e) = dragCoordinates' e"
  by (cases ref) (simp_all add: assignRef_def)

lemma dragCoordinates_animateSnap [simp]:
  "dragCoordinates' (snd (animateSnap' ref a b e)) = dragCoordinates' e"
  by (simp add: animateSnap'_def bindE_def assertElement_def split: option.splits sum.splits)

lemma dragCoordinates_dragMove [simp]:
  "dragCoordinates' (snd (dragMove' ref e)) = dragCoordinates' e"
  by (simp add: dragMove'_def bindE_def assertElement_def Let_def split: option.splits sum.splits)

lemma dragCoordinates_calcSnapCorner [simp]:
  "dragCoordinates' (calcSnapCorner' lay mr e) = dragCoordinates' e"
  by (simp add: calcSnapCorner'_def Let_def)

lemma dragCoordinates_snapToCorners [simp]:
  "dragCoordinates' (snd (drag_snapToCorners lay e)) = dragCoordinates' e"
  by (simp add: drag_snapToCorners_def Let_def snd_andThen_preserves[where Q=dragCoordinates'])

lemma dragCoordinates_updatePosition [simp]:
  "dragCoordinates' (snd (drag_updatePosition e)) = dragCoordinates' e"
  by (simp add: drag_updatePosition_def snd_andThen_preserves[where Q=dragCoordinates'])

lemma dragCoordinates_rerun [simp]:
  "dragCoordinates' (snd (drag_rerun e)) = dragCoordinates' e"
  by (simp add: drag_rerun_def)

lemma dragCoordinates_rest [simp]:
  "dragCoordinates' (snd (andThen (andThen (drag_snapToCorners lay e) drag_updatePosition) drag_rerun))
     = dragCoordinates' e"
  by (simp add: snd_andThen_preserves[where Q=dragCoordinates'])

lemma entries_unregisterDocked:
  "entries (snd (unregisterDocked m)) = map (\<lambda>e. e\<lparr>hasBeenInViewBefore := False\<rparr>) (entries m)"
  by (cases "entries' m") (simp_all add: unregisterDocked_def entries_def Let_def)

section \<open>The undock step and the docking animation\<close>

lemma finishDocking_result:
  assumes "i < length (entries m)" and "internalElement' (entry i m) = Some el"
  shows "finishDocking' i m =
           ok (m\<lparr>dockedVideo' := None,
                 entries' := Some ((map (\<lambda>e. e\<lparr>hasBeenInViewBefore := False\<rparr>) (entries m))
                    [i := (entry i m)
                       \<lparr>internalElement' := Some ((classList_remove DOCK_CLASS el)\<lparr>style := []\<rparr>),
                        dockingState' := INLINE,
                        video := (video (entry i m))\<lparr>calls := calls (video (entry i m)) @ [ShowControls]\<rparr>,
                        hasBeenInViewBefore := False,
                        dragListenerInstalled' := False\<rparr>])\<rparr>)"
proof (cases "entries' m")
  case None
  then show ?thesis using assms by (simp add: entries_def)
next
  case (Some es)
  then show ?thesis using assms
    by (simp add: finishDocking'_def Let_def unregisterDocked_def setEntry_def entry_def entries_def
        call_def ok_def andThen_def map_update)
qed

lemma finishDocking_entry:
  assumes "i < length (entries m)" and "internalElement' (entry i m) = Some el"
  shows "entry i (snd (finishDocking' i m)) =
           (entry i m)
              \<lparr>internalElement' := Some ((classList_remove DOCK_CLASS el)\<lparr>style := []\<rparr>),
               dockingState' := INLINE,
               video := (video (entry i m))\<lparr>calls := calls (video (entry i m)) @ [ShowControls]\<rparr>,
               hasBeenInViewBefore := False,
               dragListenerInstalled' := False\<rparr>"
    and "length (entries (snd (finishDocking' i m))) = length (entries m)"
    and "dockedVideo' (snd (finishDocking' i m)) = None"
    and "fst (finishDocking' i m) = None"
  using assms by (simp_all add: finishDocking_result entry_def entries_def)

lemma map_of_filter_neq:
  "map_of (filter (\<lambda>p. fst p \<noteq> k) s) k' = (if k' = k then None else map_of s k')"
  by (induction s) auto

lemma map_of_setStyle:
  "map_of (setStyle k v s) k' = (if k' = k then Some v else map_of s k')"
  by (auto simp: setStyle_def map_of_filter_neq map_add_def split: option.splits)

lemma drag_free_coordinates:
  assumes "i < length (entries m)" and "draggable (entry i m)" and "\<not> isDragging' (entry i m)"
  shows "dragCoordinates' (entry i (snd (drag' lay i m)))
         = (dragCoordinates' (entry i m))
             \<lparr>position := \<lparr>x = x (position (dragCoordinates' (entry i m))) + x (velocity (dragCoordinates' (entry i m))),
                           y = y (position (dragCoordinates' (entry i m))) + y (velocity (dragCoordinates' (entry i m)))\<rparr>,
              velocity := \<lparr>x = x (velocity (dragCoordinates' (entry i m))) * FRICTION_COEFF,
                           y = y (velocity (dragCoordinates' (entry i m))) * FRICTION_COEFF\<rparr>\<rparr>"
proof -
  obtain el where el: "internalElement' (entry i m) = Some el" "classList_contains el DOCK_CLASS"
    using assms(2) by (auto simp: draggable_def split: option.splits)
  have g: "loaded' (entry i m)" "visibleHeight' (entry i m) = 0" "dockingState' (entry i m) = DOCKED"
    using assms(2) by (auto simp: draggable_def)
  show ?thesis
  proof (cases "isDismissed' (entry i m)")
    case True
    define e1 where "e1 = call Pause ((entry i m)\<lparr>dragCoordinates' :=
              (dragCoordinates' (entry i m))
             \<lparr>position := \<lparr>x = x (position (dragCoordinates' (entry i m))) + x (velocity (dragCoordinates' (entry i m))),
                           y = y (position (dragCoordinates' (entry i m))) + y (velocity (dragCoordinates' (entry i m)))\<rparr>,
              velocity := \<lparr>x = x (velocity (dragCoordinates' (entry i m))) * FRICTION_COEFF,
                           y = y (velocity (dragCoordinates' (entry i m))) * FRICTION_COEFF\<rparr>\<rparr>\<rparr>)"
    have d: "drag' lay i m = andThen (finishDocking' i (setEntry i e1 m))
                            (\<lambda>m1. ok (setEntry i ((entry i m1)\<lparr>isDismissed' := False\<rparr>) m1))"
      using True assms(3) el g by (simp add: drag'_def Let_def e1_def call_def)
    have i1: "i < length (entries (setEntry i e1 m))" using assms(1) by simp
    have el1: "internalElement' (entry i (setEntry i e1 m)) = Some el"
      using assms(1) el by (simp add: e1_def call_def)
    have "dragCoordinates' (entry i (snd (drag' lay i m))) = dragCoordinates' e1"
      unfolding d
      using finishDocking_entry[OF i1 el1] assms(1)
      by (cases "finishDocking' i (setEntry i e1 m)") (simp add: e1_def call_def)
    then show ?thesis by (simp add: e1_def call_def)
  next
    case False
    then show ?thesis using assms(1,3) el g
      by (simp add: drag'_def Let_def snd_onEntry)
  qed
qed

section \<open>Visibility\<close>

lemma isVisible_videoVisibilityChanged [simp]:
  "isVisible' (videoVisibilityChanged' amb e) = isVisible' e"
  by (simp add: videoVisibilityChanged'_def loadedVideoVisibilityChanged'_def
      autoplayLoadedVideoVisibilityChanged'_def nonAutoplayLoadedVideoVisibilityChanged'_def
      call_def Let_def)

lemma isVisible_updateVisibility:
  "isVisible' (updateVisibility amb ratio e) = isVisible' (updateVisibility_measure ratio e)"
  by (simp add: updateVisibility_def Let_def)

text \<open>
  Claim C2. For every intersection ratio \<open>r\<close> delivered to \<^verbatim>\<open>updateVisibility\<close>, the
  visibility flag computed is \<open>r * 100 \<ge> 75\<close>; a ratio that is not a finite number
  (not-a-number, or an infinity) is treated as 0, so the flag is \<open>0 \<ge> 75\<close>, that is
  false; and a ratio of exactly 0.75 gives a visible video.
\<close>

theorem C2_updateVisibility_threshold:
  "isVisible' (updateVisibility amb (Finite r) e) = (r * 100 \<ge> 75)
   \<and> isVisible' (updateVisibility amb NaN e) = ((0::real) \<ge> 75)
   \<and> isVisible' (updateVisibility amb PosInfinity e) = ((0::real) \<ge> 75)
   \<and> isVisible' (updateVisibility amb NegInfinity e) = ((0::real) \<ge> 75)
   \<and> isVisible' (updateVisibility amb (Finite (75 / 100)) e)"
  by (simp add: isVisible_updateVisibility updateVisibility_measure_def isFiniteNumber_def
      number_times_def number_ge_def VISIBILITY_PERCENT_def)

section \<open>The drag loop\<close>

text \<open>
  Claim C4. On every free-motion tick of the drag loop (the guard of \<^verbatim>\<open>drag_\<close>
  passes and the element is not being dragged) the position is incremented by the
  velocity and each component of the velocity is multiplied by the friction
  coefficient, a constant strictly between 0 and 1. So the magnitude of the velocity
  on an axis strictly decreases on every such tick on which it is not zero, in
  particular as long as it has not fallen below the stop threshold.
\<close>

theorem C4_free_motion_tick:
  assumes "i < length (entries m)" and "draggable (entry i m)" and "\<not> isDragging' (entry i m)"
  shows "x (position (dragCoordinates' (entry i (snd (drag' lay i m)))))
           = x (position (dragCoordinates' (entry i m))) + x (velocity (dragCoordinates' (entry i m)))
       \<and> y (position (dragCoordinates' (entry i (snd (drag' lay i m)))))
           = y (position (dragCoordinates' (entry i m))) + y (velocity (dragCoordinates' (entry i m)))
       \<and> x (velocity (dragCoordinates' (entry i (snd (drag' lay i m)))))
           = x (velocity (dragCoordinates' (entry i m))) * FRICTION_COEFF
       \<and> y (velocity (dragCoordinates' (entry i (snd (drag' lay i m)))))
           = y (velocity (dragCoordinates' (entry i m))) * FRICTION_COEFF
       \<and> 0 < FRICTION_COEFF \<and> FRICTION_COEFF < 1
       \<and> (x (velocity (dragCoordinates' (entry i m))) \<noteq> 0 \<longrightarrow>
            \<bar>x (velocity (dragCoordinates' (entry i (snd (drag' lay i m)))))\<bar>
              < \<bar>x (velocity (dragCoordinates' (entry i m)))\<bar>)
       \<and> (y (velocity (dragCoordinates' (entry i m))) \<noteq> 0 \<longrightarrow>
            \<bar>y (velocity (dragCoordinates' (entry i (snd (drag' lay i m)))))\<bar>
              < \<bar>y (velocity (dragCoordinates' (entry i m)))\<bar>)
       \<and> (\<bar>x (velocity (dragCoordinates' (entry i m)))\<bar> \<ge> STOP_THRESHOLD \<longrightarrow>
            \<bar>x (velocity (dragCoordinates' (entry i (snd (drag' lay i m)))))\<bar>
              < \<bar>x (velocity (dragCoordinates' (entry i m)))\<bar>)
       \<and> (\<bar>y (velocity (dragCoordinates' (entry i m)))\<bar> \<ge> STOP_THRESHOLD \<longrightarrow>
            \<bar>y (velocity (dragCoordinates' (entry i (snd (drag' lay i m)))))\<bar>
              < \<bar>y (velocity (dragCoordinates' (entry i m)))\<bar>)"
proof -
  have shrink: "\<bar>v * FRICTION_COEFF\<bar> < \<bar>v\<bar>" if "v \<noteq> 0" for v :: real
  proof -
    have "\<bar>v * FRICTION_COEFF\<bar> = \<bar>v\<bar> * FRICTION_COEFF"
      by (simp add: abs_mult FRICTION_COEFF_def)
    also have "\<dots> < \<bar>v\<bar> * 1"
      using that by (intro mult_strict_left_mono) (simp_all add: FRICTION_COEFF_def)
    finally show ?thesis by simp
  qed
  have nz: "v \<noteq> 0" if "\<bar>v\<bar> \<ge> STOP_THRESHOLD" for v :: real
    using that by (auto simp: STOP_THRESHOLD_def)
  show ?thesis
    unfolding drag_free_coordinates[OF assms]
    using shrink nz by (simp add: FRICTION_COEFF_def)
qed

theorem C4_free_motion_tick_witness:
  "0 < length (entries (state_after events_released))
   \<and> draggable (entry 0 (state_after events_released))
   \<and> \<not> isDragging' (entry 0 (state_after events_released))
   \<and> position (dragCoordinates' (entry 0 (state_after events_released))) = \<lparr>x = 420, y = 10\<rparr>
   \<and> velocity (dragCoordinates' (entry 0 (state_after events_released))) = \<lparr>x = 20, y = - 10\<rparr>
   \<and> x (position (dragCoordinates' (entry 0 (snd (drag' layout0 0 (state_after events_released)))))) = 440
   \<and> y (position (dragCoordinates' (entry 0 (snd (drag' layout0 0 (state_after events_released)))))) = 0
   \<and> x (velocity (dragCoordinates' (entry 0 (snd (drag' layout0 0 (state_after events_released)))))) = 11
   \<and> y (velocity (dragCoordinates' (entry 0 (snd (drag' layout0 0 (state_after events_released)))))) = - 11 / 2
   \<and> \<bar>x (velocity (dragCoordinates' (entry 0 (snd (drag' layout0 0 (state_after events_released))))))\<bar> < 20
   \<and> \<bar>y (velocity (dragCoordinates' (entry 0 (snd (drag' layout0 0 (state_after events_released))))))\<bar> < 10"
proof -
  define s where "s = state_after events_released"
  have h1: "0 < length (entries s)" unfolding s_def by code_simp
  have h2: "draggable (entry 0 s)" unfolding s_def by code_simp
  have h3: "\<not> isDragging' (entry 0 s)" unfolding s_def by code_simp
  have p: "position (dragCoordinates' (entry 0 s)) = \<lparr>x = 420, y = 10\<rparr>"
    unfolding s_def by code_simp
  have v: "velocity (dragCoordinates' (entry 0 s)) = \<lparr>x = 20, y = - 10\<rparr>"
    unfolding s_def by code_simp
  note inst = C4_free_motion_tick[OF h1 h2 h3, of layout0]
  show ?thesis
    unfolding s_def[symmetric]
    using inst h1 h2 h3 p v by (simp add: FRICTION_COEFF_def)
qed

section \<open>Dragging\<close>

lemma drag_dragging_coordinates:
  assumes "i < length (entries m)" and "draggable (entry i m)" and "isDragging' (entry i m)"
  shows "dragCoordinates' (entry i (snd (drag' lay i m)))
         = (dragCoordinates' (entry i m))
             \<lparr>previous := position (dragCoordinates' (entry i m)),
              position := \<lparr>x = x (mouse (dragCoordinates' (entry i m))) - x (displacement (dragCoordinates' (entry i m))),
                           y = y (mouse (dragCoordinates' (entry i m))) - y (displacement (dragCoordinates' (entry i m)))\<rparr>,
              velocity := \<lparr>x = x (mouse (dragCoordinates' (entry i m))) - x (displacement (dragCoordinates' (entry i m)))
                                 - x (position (dragCoordinates' (entry i m))),
                           y = y (mouse (dragCoordinates' (entry i m))) - y (displacement (dragCoordinates' (entry i m)))
                                 - y (position (dragCoordinates' (entry i m)))\<rparr>\<rparr>"
proof -
  obtain el where el: "internalElement' (entry i m) = Some el" "classList_contains el DOCK_CLASS"
    using assms(2) by (auto simp: draggable_def split: option.splits)
  have g: "loaded' (entry i m)" "visibleHeight' (entry i m) = 0" "dockingState' (entry i m) = DOCKED"
    using assms(2) by (auto simp: draggable_def)
  show ?thesis using assms(1,3) el g
    by (simp add: drag'_def Let_def snd_onEntry)
qed

text \<open>
  What a tick does while the element is dragged, in terms of the pointer position that
  \<^verbatim>\<open>mouse_\<close> recorded: the position is that pointer position minus the displacement,
  the velocity is the new position minus the previous one, and the displacement is
  written by the \<^verbatim>\<open>mousedown\<close>/\<^verbatim>\<open>touchstart\<close> listener only, as the absolute value
  on each axis of the offset between the recorded pointer and the element.
\<close>

lemma drag_dragging_tick:
  assumes "i < length (entries m)" and "draggable (entry i m)" and "isDragging' (entry i m)"
  shows "x (position (dragCoordinates' (entry i (snd (drag' lay i m)))))
           = x (mouse (dragCoordinates' (entry i m))) - x (displacement (dragCoordinates' (entry i m)))
     \<and> y (position (dragCoordinates' (entry i (snd (drag' lay i m)))))
           = y (mouse (dragCoordinates' (entry i m))) - y (displacement (dragCoordinates' (entry i m)))
     \<and> previous (dragCoordinates' (entry i (snd (drag' lay i m))))
           = position (dragCoordinates' (entry i m))
     \<and> x (velocity (dragCoordinates' (entry i (snd (drag' lay i m)))))
           = x (position (dragCoordinates' (entry i (snd (drag' lay i m)))))
             - x (previous (dragCoordinates' (entry i (snd (drag' lay i m)))))
     \<and> y (velocity (dragCoordinates' (entry i (snd (drag' lay i m)))))
           = y (position (dragCoordinates' (entry i (snd (drag' lay i m)))))
             - y (previous (dragCoordinates' (entry i (snd (drag' lay i m)))))
     \<and> displacement (dragCoordinates' (entry i (snd (drag' lay i m))))
           = displacement (dragCoordinates' (entry i m))
     \<and> mouse (dragCoordinates' (entry i (snd (drag' lay i m))))
           = mouse (dragCoordinates' (entry i m))
     \<and> (\<forall>ev e. fst (listener_down ev e) = None \<longrightarrow>
           displacement (dragCoordinates' (snd (listener_down ev e)))
             = \<lparr>x = \<bar>x (position (dragCoordinates' e)) - x (mouse (dragCoordinates' (snd (listener_down ev e))))\<bar>,
                y = \<bar>y (position (dragCoordinates' e)) - y (mouse (dragCoordinates' (snd (listener_down ev e))))\<bar>\<rparr>
           \<and> position (dragCoordinates' (snd (listener_down ev e))) = position (dragCoordinates' e))
     \<and> (\<forall>ex ey e. ex \<noteq> 0 \<longrightarrow>
           fst (listener_down (MouseEvent ex ey) e) = None
           \<and> mouse (dragCoordinates' (snd (listener_down (MouseEvent ex ey) e))) = \<lparr>x = ex, y = ey\<rparr>)
     \<and> (\<forall>t ts e.
           fst (listener_down (TouchEvent (t # ts)) e) = None
           \<and> mouse (dragCoordinates' (snd (listener_down (TouchEvent (t # ts)) e))) = \<lparr>x = fst t, y = snd t\<rparr>)
     \<and> (\<forall>ev e. displacement (dragCoordinates' (snd (listener_move ev e)))
                  = displacement (dragCoordinates' e))
     \<and> (\<forall>e. displacement (dragCoordinates' (listener_up e)) = displacement (dragCoordinates' e))"
proof -
  have down: "displacement (dragCoordinates' (snd (listener_down ev e)))
             = \<lparr>x = \<bar>x (position (dragCoordinates' e)) - x (mouse (dragCoordinates' (snd (listener_down ev e))))\<bar>,
                y = \<bar>y (position (dragCoordinates' e)) - y (mouse (dragCoordinates' (snd (listener_down ev e))))\<bar>\<rparr>
           \<and> position (dragCoordinates' (snd (listener_down ev e))) = position (dragCoordinates' e)"
    if "fst (listener_down ev e) = None" for ev e
    using that
    by (cases ev) (auto simp: listener_down_def mouse'_def Let_def bindE_def ok_def throw_def
        split: list.splits)
  have mdown: "fst (listener_down (MouseEvent ex ey) e) = None
           \<and> mouse (dragCoordinates' (snd (listener_down (MouseEvent ex ey) e))) = \<lparr>x = ex, y = ey\<rparr>"
    if "ex \<noteq> 0" for ex ey e
    using that by (simp add: listener_down_def mouse'_def Let_def)
  have tdown: "fst (listener_down (TouchEvent (t # ts)) e) = None
           \<and> mouse (dragCoordinates' (snd (listener_down (TouchEvent (t # ts)) e))) = \<lparr>x = fst t, y = snd t\<rparr>"
    for t ts e
    by (simp add: listener_down_def mouse'_def Let_def)
  have move: "displacement (dragCoordinates' (snd (listener_move ev e)))
                  = displacement (dragCoordinates' e)" for ev e
    by (cases ev) (auto simp: listener_move_def mouse'_def Let_def bindE_def ok_def throw_def
        split: list.splits)
  have up: "displacement (dragCoordinates' (listener_up e)) = displacement (dragCoordinates' e)" for e
    by (simp add: listener_up_def)
  show ?thesis
    unfolding drag_dragging_coordinates[OF assms]
    using down mdown tdown move up by simp
qed

text \<open>
  Claim C6. While the element is dragged, each tick of \<^verbatim>\<open>drag_\<close> sets the position to
  the pointer position minus the displacement, the displacement being the offset
  between the pointer and the element at touch-start, and the velocity to the new
  position minus the previous one. The tick computes this from the pointer position
  that \<^verbatim>\<open>mouse_\<close> recorded (\<open>drag_dragging_tick\<close>), and \<^verbatim>\<open>mouse_\<close> tests \<^verbatim>\<open>if (e.x)\<close>
  where it means to ask whether the event has mouse coordinates: a mouse event with
  \<^verbatim>\<open>x\<close> equal to 0 is read as having none, and the recorded pointer keeps its old value
  on both axes. The theorem evaluates such a drag. The docked element is at (400, 20);
  it is pressed at (450, 60), which fixes the displacement (50, 40); the pointer moves
  to (0, 50), at the left edge of the viewport. The recorded pointer is still (450, 60)
  and the tick leaves the element at (400, 20), where the pointer position minus the
  displacement is (-50, 10). One pixel to the right, and for a touch at \<^verbatim>\<open>x\<close> equal to
  0, the tick does put the element at the pointer position minus the displacement.
\<close>

theorem C6_stale_pointer_at_left_edge:
  "run VideoManager_new events_left_edge = Some (state_after events_left_edge)
   \<and> position (dragCoordinates' (entry 0 (state_after events_docked))) = \<lparr>x = 400, y = 20\<rparr>
   \<and> displacement (dragCoordinates' (entry 0 (state_after events_left_edge))) = \<lparr>x = 50, y = 40\<rparr>
   \<and> draggable (entry 0 (state_after events_left_edge))
   \<and> isDragging' (entry 0 (state_after events_left_edge))
   \<and> mouse (dragCoordinates' (entry 0 (state_after events_left_edge))) = \<lparr>x = 450, y = 60\<rparr>
   \<and> enabled (state_after events_left_edge) (DragTick 0 layout0)
   \<and> position (dragCoordinates' (entry 0 (step (state_after events_left_edge) (DragTick 0 layout0))))
        = \<lparr>x = 400, y = 20\<rparr>
   \<and> position (dragCoordinates' (entry 0 (step (state_after events_left_edge) (DragTick 0 layout0))))
        \<noteq> \<lparr>x = 0 - 50, y = 50 - 40\<rparr>
   \<and> velocity (dragCoordinates' (entry 0 (step (state_after events_left_edge) (DragTick 0 layout0))))
        = \<lparr>x = 0, y = 0\<rparr>
   \<and> position (dragCoordinates' (entry 0 (state_after (events_docked @
          [PointerDown 0 (MouseEvent 450 60), PointerMove 0 (MouseEvent 1 50), DragTick 0 layout0]))))
        = \<lparr>x = 1 - 50, y = 50 - 40\<rparr>
   \<and> position (dragCoordinates' (entry 0 (state_after (events_docked @
          [PointerDown 0 (MouseEvent 450 60), PointerMove 0 (TouchEvent [(0, 50)]), DragTick 0 layout0]))))
        = \<lparr>x = 0 - 50, y = 50 - 40\<rparr>"
  by code_simp

theorem C6_stale_pointer_at_left_edge_witness:
  "mouse (dragCoordinates' (entry 0 (state_after events_left_edge))) = \<lparr>x = 450, y = 60\<rparr>
   \<and> position (dragCoordinates' (entry 0 (step (state_after events_left_edge) (DragTick 0 layout0))))
        = \<lparr>x = 400, y = 20\<rparr>"
  using C6_stale_pointer_at_left_edge by simp

section \<open>Undocking\<close>

lemma lastControlsCall_snoc_show [simp]:
  "lastControlsCall (v\<lparr>calls := cs @ [ShowControls]\<rparr>) = Some ShowControls"
  by (simp add: lastControlsCall_def)

lemma lastControlsCall_snoc_hide [simp]:
  "lastControlsCall (v\<lparr>calls := cs @ [HideControls]\<rparr>) = Some HideControls"
  by (simp add: lastControlsCall_def)

text \<open>
  Claim C8. After the round trip INLINE, DOCKING, DOCKED, the undock step
  \<^verbatim>\<open>finishDocking_\<close> completes without an exception, removes the minimizing marker
  class, clears the inline style attribute of the element entirely, calls
  \<^verbatim>\<open>showControls\<close>, resets the docking state to INLINE and releases the manager's
  slot for the docked video, so that every entry may dock again. The style it leaves
  is the empty one whatever the element carried before docking: it is the style from
  before docking exactly when that was empty (last conjunct, and the witness), and an
  inline style that the element had of its own is lost (the round trip that follows
  the witness).
\<close>

theorem C8_undock_clears_style:
  assumes "i < length (entries m)" and "internalElement' (entry i m) = Some el"
  shows "fst (finishDocking' i m) = None
     \<and> map_option (\<lambda>n. classList_contains n DOCK_CLASS)
          (internalElement' (entry i (snd (finishDocking' i m)))) = Some False
     \<and> map_option style (internalElement' (entry i (snd (finishDocking' i m)))) = Some []
     \<and> calls (video (entry i (snd (finishDocking' i m)))) = calls (video (entry i m)) @ [ShowControls]
     \<and> lastControlsCall (video (entry i (snd (finishDocking' i m)))) = Some ShowControls
     \<and> dockingState' (entry i (snd (finishDocking' i m))) = INLINE
     \<and> dockedVideo' (snd (finishDocking' i m)) = None
     \<and> (\<forall>j. canDock j (snd (finishDocking' i m)))
     \<and> (\<forall>el0. (map_option style (internalElement' (entry i (snd (finishDocking' i m))))
                      = Some (style el0)) = (style el0 = []))"
  using finishDocking_entry[OF assms]
  by (auto simp: classList_contains_def classList_remove_def canDock_def)

theorem C8_undock_clears_style_witness:
  "run VideoManager_new (events_playing @
         [PositionChanged 0 layout0 posPartial, PositionChanged 0 layout0 posTop,
          PositionChanged 0 layout0 posInside]) \<noteq> None
   \<and> dockingState' (entry 0 (state_after events_playing)) = INLINE
   \<and> map_option style (internalElement' (entry 0 (state_after events_playing))) = Some []
   \<and> dockingState' (entry 0 (state_after (events_playing @ [PositionChanged 0 layout0 posPartial]))) = DOCKING
   \<and> dockingState' (entry 0 (state_after (events_playing @
         [PositionChanged 0 layout0 posPartial, PositionChanged 0 layout0 posTop]))) = DOCKED
   \<and> dockedVideo' (state_after (events_playing @
         [PositionChanged 0 layout0 posPartial, PositionChanged 0 layout0 posTop])) = Some 0
   \<and> onDockableVideoPositionChanged layout0 posInside 0
        (state_after (events_playing @
           [PositionChanged 0 layout0 posPartial, PositionChanged 0 layout0 posTop]))
      = finishDocking' 0
          (snd (onEntry 0 (updateDockableVideoPosition' layout0 posInside)
             (state_after (events_playing @
                [PositionChanged 0 layout0 posPartial, PositionChanged 0 layout0 posTop]))))
   \<and> map_option style (internalElement' (entry 0 (snd (finishDocking' 0
          (snd (onEntry 0 (updateDockableVideoPosition' layout0 posInside)
             (state_after (events_playing @
                [PositionChanged 0 layout0 posPartial, PositionChanged 0 layout0 posTop])))))))) = Some []
   \<and> map_option (\<lambda>n. classList_contains n DOCK_CLASS) (internalElement' (entry 0 (snd (finishDocking' 0
          (snd (onEntry 0 (updateDockableVideoPosition' layout0 posInside)
             (state_after (events_playing @
                [PositionChanged 0 layout0 posPartial, PositionChanged 0 layout0 posTop])))))))) = Some False
   \<and> lastControlsCall (video (entry 0 (snd (finishDocking' 0
          (snd (onEntry 0 (updateDockableVideoPosition' layout0 posInside)
             (state_after (events_playing @
                [PositionChanged 0 layout0 posPartial, PositionChanged 0 layout0 posTop]))))))))
        = Some ShowControls
   \<and> dockingState' (entry 0 (snd (finishDocking' 0
          (snd (onEntry 0 (updateDockableVideoPosition' layout0 posInside)
             (state_after (events_playing @
                [PositionChanged 0 layout0 posPartial, PositionChanged 0 layout0 posTop]))))))) = INLINE
   \<and> dockedVideo' (snd (finishDocking' 0
          (snd (onEntry 0 (updateDockableVideoPosition' layout0 posInside)
             (state_after (events_playing @
                [PositionChanged 0 layout0 posPartial, PositionChanged 0 layout0 posTop])))))) = None
   \<and> map_option style (internalElement' (entry 0 (snd (finishDocking' 0
          (snd (onEntry 0 (updateDockableVideoPosition' layout0 posInside)
             (state_after (events_playing @
                [PositionChanged 0 layout0 posPartial, PositionChanged 0 layout0 posTop]))))))))
        = map_option style (internalElement' (entry 0 (state_after events_playing)))"
proof -
  define d where "d = state_after (events_playing @
         [PositionChanged 0 layout0 posPartial, PositionChanged 0 layout0 posTop])"
  define m1 where "m1 = snd (onEntry 0 (updateDockableVideoPosition' layout0 posInside) d)"
  have a0: "run VideoManager_new (events_playing @
         [PositionChanged 0 layout0 posPartial, PositionChanged 0 layout0 posTop,
          PositionChanged 0 layout0 posInside]) \<noteq> None" by code_simp
  have a1: "dockingState' (entry 0 (state_after events_playing)) = INLINE" by code_simp
  have a2: "map_option style (internalElement' (entry 0 (state_after events_playing))) = Some []"
    by code_simp
  have a3: "dockingState' (entry 0 (state_after (events_playing @ [PositionChanged 0 layout0 posPartial]))) = DOCKING"
    by code_simp
  have a4: "dockingState' (entry 0 d) = DOCKED" unfolding d_def by code_simp
  have a5: "dockedVideo' d = Some 0" unfolding d_def by code_simp
  have a6: "onDockableVideoPositionChanged layout0 posInside 0 d = finishDocking' 0 m1"
    unfolding m1_def d_def by code_simp
  have h1: "0 < length (entries m1)" unfolding m1_def d_def by code_simp
  have h2: "internalElement' (entry 0 m1) = Some (the (internalElement' (entry 0 m1)))"
    unfolding m1_def d_def by code_simp
  note inst = C8_undock_clears_style[OF h1 h2]
  have st: "map_option style (internalElement' (entry 0 (snd (finishDocking' 0 m1)))) = Some []"
    using inst by blast
  have rel: "map_option style (internalElement' (entry 0 (snd (finishDocking' 0 m1))))
        = map_option style (internalElement' (entry 0 (state_after events_playing)))"
    unfolding st a2 ..
  have rest: "map_option (\<lambda>n. classList_contains n DOCK_CLASS)
          (internalElement' (entry 0 (snd (finishDocking' 0 m1)))) = Some False
     \<and> lastControlsCall (video (entry 0 (snd (finishDocking' 0 m1)))) = Some ShowControls
     \<and> dockingState' (entry 0 (snd (finishDocking' 0 m1))) = INLINE
     \<and> dockedVideo' (snd (finishDocking' 0 m1)) = None"
    using inst by blast
  show ?thesis
    unfolding d_def[symmetric] m1_def[symmetric]
    using a0 a1 a2 a3 a4 a5 a6 st rel rest by blast
qed

text \<open>
  The same round trip for an element that has the inline style \<^verbatim>\<open>opacity: 0.5\<close> before
  docking: the video is inline, docking, docked, and inline again with an empty style.
\<close>

theorem C8_styled_round_trip_counterexample:
  "run VideoManager_new (events_styled @
         [PositionChanged 0 layout0 posPartial, PositionChanged 0 layout0 posTop,
          PositionChanged 0 layout0 posInside]) \<noteq> None
   \<and> dockingState' (entry 0 (state_after events_styled)) = INLINE
   \<and> map_option style (internalElement' (entry 0 (state_after events_styled)))
        = Some [(''opacity'', Lit ''0.5'')]
   \<and> dockingState' (entry 0 (state_after (events_styled @ [PositionChanged 0 layout0 posPartial]))) = DOCKING
   \<and> dockingState' (entry 0 (state_after (events_styled @
         [PositionChanged 0 layout0 posPartial, PositionChanged 0 layout0 posTop]))) = DOCKED
   \<and> onDockableVideoPositionChanged layout0 posInside 0
        (state_after (events_styled @
           [PositionChanged 0 layout0 posPartial, PositionChanged 0 layout0 posTop]))
      = finishDocking' 0
          (snd (onEntry 0 (updateDockableVideoPosition' layout0 posInside)
             (state_after (events_styled @
                [PositionChanged 0 layout0 posPartial, PositionChanged 0 layout0 posTop]))))
   \<and> dockingState' (entry 0 (state_after (events_styled @
         [PositionChanged 0 layout0 posPartial, PositionChanged 0 layout0 posTop,
          PositionChanged 0 layout0 posInside]))) = INLINE
   \<and> map_option style (internalElement' (entry 0 (state_after (events_styled @
         [PositionChanged 0 layout0 posPartial, PositionChanged 0 layout0 posTop,
          PositionChanged 0 layout0 posInside])))) = Some []
   \<and> map_option style (internalElement' (entry 0 (state_after (events_styled @
         [PositionChanged 0 layout0 posPartial, PositionChanged 0 layout0 posTop,
          PositionChanged 0 layout0 posInside]))))
        \<noteq> map_option style (internalElement' (entry 0 (state_after events_styled)))"
  by code_simp

section \<open>Looking up a video\<close>

lemma getEntryForVideo_loop_None:
  "vid v \<notin> set (map (\<lambda>e. vid (video e)) es) \<Longrightarrow> getEntryForVideo_loop v es = None"
  by (induction es) auto

lemma getEntryForVideo_loop_Some:
  "vid v \<in> set (map (\<lambda>e. vid (video e)) es) \<Longrightarrow> \<exists>e \<in> set es. getEntryForVideo_loop v es = Some e \<and> vid (video e) = vid v"
  by (induction es) auto

lemma lookup_unregistered_asserts:
  assumes "entries' m = Some es" and "vid v \<notin> set (map (\<lambda>e. vid (video e)) es)"
  shows "VideoManager_getPlayingState v m
           = Inl (AssertionError ''video is not registered to this video manager'')"
    and "VideoManager_userInteractedWithAutoPlay v m
           = Inl (AssertionError ''video is not registered to this video manager'')"
  using assms
  by (simp_all add: VideoManager_getPlayingState_def VideoManager_userInteractedWithAutoPlay_def
      getEntryForVideo'_def getEntryForVideo_loop_None)

lemma lookup_without_entries_throws:
  assumes "entries' m = None"
  shows "VideoManager_getPlayingState v m = Inl TypeError"
    and "VideoManager_userInteractedWithAutoPlay v m = Inl TypeError"
  using assms
  by (simp_all add: VideoManager_getPlayingState_def VideoManager_userInteractedWithAutoPlay_def
      getEntryForVideo'_def)

text \<open>
  Claim C9. For a video that was never registered, \<^verbatim>\<open>getPlayingState\<close> and
  \<^verbatim>\<open>userInteractedWithAutoPlay\<close> are to fail with a developer assertion. That is so
  once the manager has its array of entries (\<open>lookup_unregistered_asserts\<close>). Before
  the first successful registration \<^verbatim>\<open>entries_\<close> is still \<^verbatim>\<open>null\<close>, and the loop of
  \<^verbatim>\<open>getEntryForVideo_\<close> throws a TypeError on reading its length before it reaches
  the assertion: on a new manager, and on a manager whose only registration was
  skipped because the platform is not supported.
\<close>

theorem C9_lookup_before_first_registration:
  "VideoManager_getPlayingState video0 VideoManager_new = Inl TypeError
   \<and> VideoManager_userInteractedWithAutoPlay video0 VideoManager_new = Inl TypeError
   \<and> \<not> supportsPlatform (video0\<lparr>supportsPlatform := False\<rparr>)
   \<and> VideoManager_getPlayingState (video0\<lparr>supportsPlatform := False\<rparr>)
        (fst (register doc0 (video0\<lparr>supportsPlatform := False\<rparr>) VideoManager_new)) = Inl TypeError
   \<and> VideoManager_userInteractedWithAutoPlay (video0\<lparr>supportsPlatform := False\<rparr>)
        (fst (register doc0 (video0\<lparr>supportsPlatform := False\<rparr>) VideoManager_new)) = Inl TypeError
   \<and> VideoManager_getPlayingState video1 (fst (register doc0 video0 VideoManager_new))
        = Inl (AssertionError ''video is not registered to this video manager'')"
  by (simp add: VideoManager_getPlayingState_def VideoManager_userInteractedWithAutoPlay_def
      getEntryForVideo'_def VideoManager_new_def register_def registerCommonActions'_def Let_def
      entries_def maybeInstallVisibilityObserver'_def maybeInstallPositionObserver'_def
      VideoEntry_new_def videoBuilt'_def video0_def video1_def)

section \<open>Registration\<close>

lemma registeredActions_VideoEntry_new [simp]:
  "registeredActions (video (VideoEntry_new doc v)) = registeredActions v"
  by (simp add: VideoEntry_new_def videoBuilt'_def autoplayVideoBuilt'_def call_def Let_def)

text \<open>
  Claim C10. \<^verbatim>\<open>register\<close> wires the common actions (play, pause, mute, unmute)
  before it asks \<^verbatim>\<open>supportsPlatform\<close>: whatever the answer, the video leaves with the
  four actions added to its action table. When the platform is not supported no
  entry is created and the manager, with its list of entries, is unchanged.
\<close>

theorem C10_register_actions_before_platform_check:
  "registeredActions (snd (register doc v m))
     = registeredActions v @
         [(''play'', Play False, MEDIUM), (''pause'', Pause, MEDIUM),
          (''mute'', Mute, MEDIUM), (''unmute'', Unmute, MEDIUM)]
   \<and> (\<not> supportsPlatform v \<longrightarrow>
         fst (register doc v m) = m \<and> entries' (fst (register doc v m)) = entries' m)
   \<and> (supportsPlatform v \<longrightarrow>
         entries (fst (register doc v m)) = entries m @ [VideoEntry_new doc (registerCommonActions' v)])"
  by (simp add: register_def registerCommonActions'_def Let_def entries_def
      maybeInstallVisibilityObserver'_def maybeInstallPositionObserver'_def)

theorem C10_register_actions_before_platform_check_witness:
  "\<not> supportsPlatform (video0\<lparr>supportsPlatform := False\<rparr>)
   \<and> registeredActions (snd (register doc0 (video0\<lparr>supportsPlatform := False\<rparr>) VideoManager_new))
       = [(''play'', Play False, MEDIUM), (''pause'', Pause, MEDIUM),
          (''mute'', Mute, MEDIUM), (''unmute'', Unmute, MEDIUM)]
   \<and> fst (register doc0 (video0\<lparr>supportsPlatform := False\<rparr>) VideoManager_new) = VideoManager_new
   \<and> entries' (fst (register doc0 (video0\<lparr>supportsPlatform := False\<rparr>) VideoManager_new)) = None
   \<and> supportsPlatform video0
   \<and> length (entries (fst (register doc0 video0 VideoManager_new))) = 1"
proof -
  have a: "\<not> supportsPlatform (video0\<lparr>supportsPlatform := False\<rparr>)" by simp
  have b: "supportsPlatform video0" by (simp add: video0_def)
  have c: "registeredActions (video0\<lparr>supportsPlatform := False\<rparr>) = []" by (simp add: video0_def)
  have d: "entries VideoManager_new = []" "entries' VideoManager_new = None"
    by (simp_all add: entries_def VideoManager_new_def)
  show ?thesis
    using C10_register_actions_before_platform_check
            [of doc0 "video0\<lparr>supportsPlatform := False\<rparr>" VideoManager_new]
          C10_register_actions_before_platform_check[of doc0 video0 VideoManager_new]
          a b c d
    by simp
qed

section \<open>The single docked video\<close>




lemma entries_length_setEntry [simp]: "length (entries (setEntry i e m)) = length (entries m)"
  by simp

lemma hasDockClass_cong:
  "internalElement' e' = internalElement' e \<Longrightarrow> hasDockClass e' = hasDockClass e"
  by (simp add: hasDockClass_def)



lemma snd_bindE: "snd (bindE v f s) = (case v of Inl err \<Rightarrow> s | Inr a \<Rightarrow> snd (f a))"
  by (simp add: bindE_def throw_def split: sum.splits)

lemma classList_setStyles [simp]: "classList (setStyles el kvs) = classList el"
  by (simp add: setStyles_def)

lemma classList_contains_setStyles [simp]:
  "classList_contains (setStyles el kvs) c = classList_contains el c"
  by (simp add: classList_contains_def)

lemma classList_contains_remove [simp]: "\<not> classList_contains (classList_remove c el) c"
  by (simp add: classList_contains_def classList_remove_def)

lemma classList_contains_style_update [simp]:
  "classList_contains (el\<lparr>style := s\<rparr>) c = classList_contains el c"
  by (simp add: classList_contains_def)

lemma classList_contains_add [simp]: "classList_contains (classList_add c el) c"
  by (simp add: classList_contains_def classList_add_def)

text \<open>the blocks of the drag loop leave the docking state and the class alone\<close>

lemma animateSnap_preserves [simp]:
  "dockingState' (snd (animateSnap' ref a b e)) = dockingState' e"
  "internalElement' (snd (animateSnap' ref a b e)) = internalElement' e"
  by (simp_all add: animateSnap'_def bindE_def assertElement_def split: option.splits sum.splits)

lemma dragMove_preserves [simp]:
  "dockingState' (snd (dragMove' ref e)) = dockingState' e"
  "hasDockClass (snd (dragMove' ref e)) = hasDockClass e"
  by (cases ref; cases "draggingMask' e"; cases "internalElement' e";
      simp add: dragMove'_def assertElement_def deref_def assignRef_def Let_def hasDockClass_def)+

lemma calcSnapCorner_preserves [simp]:
  "dockingState' (calcSnapCorner' lay mr e) = dockingState' e"
  "internalElement' (calcSnapCorner' lay mr e) = internalElement' e"
  by (simp_all add: calcSnapCorner'_def Let_def)

lemma snapToCorners_preserves [simp]:
  "dockingState' (snd (drag_snapToCorners lay e)) = dockingState' e"
  "hasDockClass (snd (drag_snapToCorners lay e)) = hasDockClass e"
proof -
  have a: "\<And>ref a b e. hasDockClass (snd (animateSnap' ref a b e)) = hasDockClass e"
    by (simp add: hasDockClass_def)
  show "dockingState' (snd (drag_snapToCorners lay e)) = dockingState' e"
    by (simp add: drag_snapToCorners_def Let_def snd_andThen_preserves[where Q=dockingState'])
  show "hasDockClass (snd (drag_snapToCorners lay e)) = hasDockClass e"
    by (simp add: drag_snapToCorners_def Let_def snd_andThen_preserves[where Q=hasDockClass] a)
      (simp add: hasDockClass_def)
qed

lemma updatePosition_preserves [simp]:
  "dockingState' (snd (drag_updatePosition e)) = dockingState' e"
  "hasDockClass (snd (drag_updatePosition e)) = hasDockClass e"
  by (simp_all add: drag_updatePosition_def snd_andThen_preserves[where Q=dockingState']
      snd_andThen_preserves[where Q=hasDockClass])

lemma rerun_preserves [simp]:
  "dockingState' (snd (drag_rerun e)) = dockingState' e"
  "hasDockClass (snd (drag_rerun e)) = hasDockClass e"
  by (simp_all add: drag_rerun_def hasDockClass_def)

lemma rest_preserves:
  "dockingState' (snd (andThen (andThen (drag_snapToCorners lay e) drag_updatePosition) drag_rerun))
     = dockingState' e"
  "hasDockClass (snd (andThen (andThen (drag_snapToCorners lay e) drag_updatePosition) drag_rerun))
     = hasDockClass e"
  by (simp_all add: snd_andThen_preserves[where Q=dockingState']
      snd_andThen_preserves[where Q=hasDockClass])

lemma initializeDragging_preserves [simp]:
  "dockingState' (snd (initializeDragging' lay e)) = dockingState' e"
  "internalElement' (snd (initializeDragging' lay e)) = internalElement' e"
  by (simp_all add: initializeDragging'_def Let_def split: option.splits)





lemma hasDockClass_call [simp]: "hasDockClass (call c e) = hasDockClass e"
  by (simp add: hasDockClass_def call_def)

lemma dockingState_call [simp]: "dockingState' (call c e) = dockingState' e"
  by (simp add: call_def)

lemma internalElement_call [simp]: "internalElement' (call c e) = internalElement' e"
  by (simp add: call_def)



lemma entries_update_dockedVideo [simp]: "entries (m\<lparr>dockedVideo' := d\<rparr>) = entries m"
  by (simp add: entries_def)

lemma entry_update_dockedVideo [simp]: "entry j (m\<lparr>dockedVideo' := d\<rparr>) = entry j m"
  by (simp add: entry_def)



lemma finishDragging_preserves [simp]:
  "dockingState' (finishDragging' e) = dockingState' e"
  "internalElement' (finishDragging' e) = internalElement' e"
  by (simp_all add: finishDragging'_def removeDraggingMask'_def)








lemma loadedVisibility_preserves [simp]:
  "dockingState' (loadedVideoVisibilityChanged' amb e) = dockingState' e"
  "internalElement' (loadedVideoVisibilityChanged' amb e) = internalElement' e"
  by (simp_all add: loadedVideoVisibilityChanged'_def autoplayLoadedVideoVisibilityChanged'_def
      nonAutoplayLoadedVideoVisibilityChanged'_def call_def Let_def)

lemma updateVisibility_preserves [simp]:
  "dockingState' (updateVisibility amb ratio e) = dockingState' e"
  "internalElement' (updateVisibility amb ratio e) = internalElement' e"
  by (simp_all add: updateVisibility_def updateVisibility_measure_def videoVisibilityChanged'_def Let_def)

lemma videoLoaded_preserves [simp]:
  "dockingState' (videoLoaded amb ratio q e) = dockingState' e"
  "internalElement' (videoLoaded amb ratio q e) = q"
  by (simp_all add: videoLoaded_def Let_def)

lemma mouse_preserves [simp]:
  "dockingState' (snd (mouse' ev u e)) = dockingState' e"
  "internalElement' (snd (mouse' ev u e)) = internalElement' e"
  by (simp_all add: mouse'_def Let_def snd_bindE split: sum.splits domEvent.splits list.splits)

lemma listener_preserves [simp]:
  "dockingState' (snd (listener_down ev e)) = dockingState' e"
  "internalElement' (snd (listener_down ev e)) = internalElement' e"
  "dockingState' (snd (listener_move ev e)) = dockingState' e"
  "internalElement' (snd (listener_move ev e)) = internalElement' e"
  by (simp_all add: listener_down_def listener_move_def)



lemma VideoEntry_new_inline [simp]:
  "dockingState' (VideoEntry_new doc v) = INLINE"
  "internalElement' (VideoEntry_new doc v) = None"
  by (simp_all add: VideoEntry_new_def videoBuilt'_def autoplayVideoBuilt'_def call_def Let_def)








section \<open>Entering the docked state\<close>

lemma animateSnap_ok:
  assumes "deref ref e \<noteq> None"
  shows "animateSnap' ref a b e = ok (e\<lparr>snapCallbacks := snapCallbacks e @ [\<lparr>x = a, y = b\<rparr>]\<rparr>)"
  using assms by (auto simp: animateSnap'_def assertElement_def)

lemma dragMove_ok:
  assumes "deref ref e = Some el"
  shows "\<exists>el'. dragMove' ref e = ok (assignRef ref el' e) \<and> classList el' = classList el"
  using assms by (auto simp: dragMove'_def assertElement_def Let_def)

lemma snapToCorners_ok:
  assumes "draggingMask' e \<noteq> None" and "internalElement' e \<noteq> None"
  shows "drag_frame_ok e (drag_snapToCorners lay e)"
  using assms
  by (auto simp: drag_frame_ok_def drag_snapToCorners_def Let_def animateSnap_ok deref_def
      calcSnapCorner'_def hasDockClass_def)

lemma updatePosition_ok:
  assumes "draggingMask' e \<noteq> None" and "internalElement' e \<noteq> None"
  shows "drag_frame_ok e (drag_updatePosition e)"
proof (cases "isSnapping' e")
  case True
  then show ?thesis using assms
    by (simp add: drag_frame_ok_def drag_updatePosition_def)
next
  case False
  obtain mk el where mk: "draggingMask' e = Some mk" and el: "internalElement' e = Some el"
    using assms by auto
  obtain mk' where m1: "dragMove' DraggingMask e = ok (assignRef DraggingMask mk' e)"
    using dragMove_ok[of DraggingMask e mk] mk by (auto simp: deref_def)
  define e1 where "e1 = assignRef DraggingMask mk' e"
  have d1: "deref InternalElement e1 = Some el" by (simp add: e1_def deref_def assignRef_def el)
  obtain el' where m2: "dragMove' InternalElement e1 = ok (assignRef InternalElement el' e1)"
      and cl: "classList el' = classList el"
    using dragMove_ok[OF d1] by auto
  have "drag_updatePosition e = ok (assignRef InternalElement el' e1)"
    using False m1 m2 by (simp add: drag_updatePosition_def e1_def)
  then show ?thesis
    using cl el by (simp add: drag_frame_ok_def e1_def assignRef_def hasDockClass_def classList_contains_def)
qed

lemma rest_ok:
  assumes "draggingMask' e \<noteq> None" and "internalElement' e \<noteq> None"
  shows "fst (andThen (andThen (drag_snapToCorners lay e) drag_updatePosition) drag_rerun) = None"
    and "draggingMask' (snd (andThen (andThen (drag_snapToCorners lay e) drag_updatePosition) drag_rerun)) \<noteq> None"
    and "dragListenerInstalled' (snd (andThen (andThen (drag_snapToCorners lay e) drag_updatePosition) drag_rerun))
           = dragListenerInstalled' e"
    and "video (snd (andThen (andThen (drag_snapToCorners lay e) drag_updatePosition) drag_rerun)) = video e"
    and "dragTicks (snd (andThen (andThen (drag_snapToCorners lay e) drag_updatePosition) drag_rerun))
           = dragTicks e + 1"
proof -
  obtain e1 where s1: "drag_snapToCorners lay e = (None, e1)" and f1: "drag_frame_ok e (None, e1)"
    using snapToCorners_ok[OF assms, of lay]
    by (cases "drag_snapToCorners lay e") (auto simp: drag_frame_ok_def)
  have e1: "draggingMask' e1 \<noteq> None" "internalElement' e1 \<noteq> None"
    using f1 by (simp_all add: drag_frame_ok_def)
  obtain e2 where s2: "drag_updatePosition e1 = (None, e2)" and f2: "drag_frame_ok e1 (None, e2)"
    using updatePosition_ok[OF e1]
    by (cases "drag_updatePosition e1") (auto simp: drag_frame_ok_def)
  have r: "andThen (andThen (drag_snapToCorners lay e) drag_updatePosition) drag_rerun
           = ok (e2\<lparr>dragTicks := dragTicks e2 + 1\<rparr>)"
    by (simp add: s1 s2 drag_rerun_def)
  show "fst (andThen (andThen (drag_snapToCorners lay e) drag_updatePosition) drag_rerun) = None"
    and "draggingMask' (snd (andThen (andThen (drag_snapToCorners lay e) drag_updatePosition) drag_rerun)) \<noteq> None"
    and "dragListenerInstalled' (snd (andThen (andThen (drag_snapToCorners lay e) drag_updatePosition) drag_rerun))
           = dragListenerInstalled' e"
    and "video (snd (andThen (andThen (drag_snapToCorners lay e) drag_updatePosition) drag_rerun)) = video e"
    and "dragTicks (snd (andThen (andThen (drag_snapToCorners lay e) drag_updatePosition) drag_rerun))
           = dragTicks e + 1"
    unfolding r using f1 f2 by (simp_all add: drag_frame_ok_def)
qed

lemma drag_running:
  assumes i: "i < length (entries m)" and dr: "draggable (entry i m)"
    and mk: "draggingMask' (entry i m) \<noteq> None" and nd: "\<not> isDismissed' (entry i m)"
  shows "fst (drag' lay i m) = None"
    and "dockingState' (entry i (snd (drag' lay i m))) = DOCKED"
    and "draggingMask' (entry i (snd (drag' lay i m))) \<noteq> None"
    and "dragListenerInstalled' (entry i (snd (drag' lay i m))) = dragListenerInstalled' (entry i m)"
    and "video (entry i (snd (drag' lay i m))) = video (entry i m)"
    and "dragTicks (entry i (snd (drag' lay i m))) = dragTicks (entry i m) + 1"
    and "hasDockClass (entry i (snd (drag' lay i m)))"
proof -
  obtain el where el: "internalElement' (entry i m) = Some el" "classList_contains el DOCK_CLASS"
    using dr by (auto simp: draggable_def split: option.splits)
  have g: "loaded' (entry i m)" "visibleHeight' (entry i m) = 0" "dockingState' (entry i m) = DOCKED"
    using dr by (auto simp: draggable_def)
  obtain e1 where d: "drag' lay i m = onEntry i
        (\<lambda>e1. andThen (andThen (drag_snapToCorners lay e1) drag_updatePosition) drag_rerun)
        (setEntry i e1 m)"
    and e1: "draggingMask' e1 = draggingMask' (entry i m)" "internalElement' e1 = internalElement' (entry i m)"
      "dockingState' e1 = DOCKED" "dragListenerInstalled' e1 = dragListenerInstalled' (entry i m)"
      "video e1 = video (entry i m)" "dragTicks e1 = dragTicks (entry i m)"
  proof (cases "isDragging' (entry i m)")
    case True
    show ?thesis
      by (rule that[where ?e1.0 = "(if x (mouse (dragCoordinates' (entry i m))) - x (displacement (dragCoordinates' (entry i m))) + width (minimizedRect lay) / 2 > getWidth lay
              \<or> x (mouse (dragCoordinates' (entry i m))) - x (displacement (dragCoordinates' (entry i m))) + width (minimizedRect lay) / 2 < 0
              \<or> y (mouse (dragCoordinates' (entry i m))) - y (displacement (dragCoordinates' (entry i m))) + height (minimizedRect lay) / 2 > getHeight lay
              \<or> y (mouse (dragCoordinates' (entry i m))) - y (displacement (dragCoordinates' (entry i m))) + height (minimizedRect lay) / 2 < 0
            then ((entry i m)\<lparr>dragCoordinates' := (dragCoordinates' (entry i m))
               \<lparr>previous := \<lparr>x = x (position (dragCoordinates' (entry i m))), y = y (position (dragCoordinates' (entry i m)))\<rparr>,
                position := \<lparr>x = x (mouse (dragCoordinates' (entry i m))) - x (displacement (dragCoordinates' (entry i m))),
                             y = y (mouse (dragCoordinates' (entry i m))) - y (displacement (dragCoordinates' (entry i m)))\<rparr>,
                velocity := \<lparr>x = x (mouse (dragCoordinates' (entry i m))) - x (displacement (dragCoordinates' (entry i m))) - x (position (dragCoordinates' (entry i m))),
                             y = y (mouse (dragCoordinates' (entry i m))) - y (displacement (dragCoordinates' (entry i m))) - y (position (dragCoordinates' (entry i m)))\<rparr>\<rparr>\<rparr>)\<lparr>isDismissed' := True\<rparr>
            else (entry i m)\<lparr>dragCoordinates' := (dragCoordinates' (entry i m))
               \<lparr>previous := \<lparr>x = x (position (dragCoordinates' (entry i m))), y = y (position (dragCoordinates' (entry i m)))\<rparr>,
                position := \<lparr>x = x (mouse (dragCoordinates' (entry i m))) - x (displacement (dragCoordinates' (entry i m))),
                             y = y (mouse (dragCoordinates' (entry i m))) - y (displacement (dragCoordinates' (entry i m)))\<rparr>,
                velocity := \<lparr>x = x (mouse (dragCoordinates' (entry i m))) - x (displacement (dragCoordinates' (entry i m))) - x (position (dragCoordinates' (entry i m))),
                             y = y (mouse (dragCoordinates' (entry i m))) - y (displacement (dragCoordinates' (entry i m))) - y (position (dragCoordinates' (entry i m)))\<rparr>\<rparr>\<rparr>)"])
         (use True el g in \<open>simp_all add: drag'_def Let_def\<close>)
  next
    case False
    show ?thesis
      by (rule that[where ?e1.0 = "(entry i m)\<lparr>dragCoordinates' := (dragCoordinates' (entry i m))
             \<lparr>position := \<lparr>x = x (position (dragCoordinates' (entry i m))) + x (velocity (dragCoordinates' (entry i m))),
                           y = y (position (dragCoordinates' (entry i m))) + y (velocity (dragCoordinates' (entry i m)))\<rparr>,
              velocity := \<lparr>x = x (velocity (dragCoordinates' (entry i m))) * FRICTION_COEFF,
                           y = y (velocity (dragCoordinates' (entry i m))) * FRICTION_COEFF\<rparr>\<rparr>\<rparr>"])
         (use False nd el g in \<open>simp_all add: drag'_def Let_def\<close>)
  qed
  have mk1: "draggingMask' e1 \<noteq> None" "internalElement' e1 \<noteq> None"
    using e1 mk el by simp_all
  have cls: "hasDockClass e1" using e1(2) el by (simp add: hasDockClass_def)
  note ro = rest_ok[OF mk1, of lay] rest_preserves[of lay e1]
  show "fst (drag' lay i m) = None"
    unfolding d using ro(1) i by (simp add: fst_onEntry)
  show "dockingState' (entry i (snd (drag' lay i m))) = DOCKED"
    unfolding d using ro(6) i e1(3) by (simp add: snd_onEntry)
  show "draggingMask' (entry i (snd (drag' lay i m))) \<noteq> None"
    unfolding d using ro(2) i by (simp add: snd_onEntry)
  show "dragListenerInstalled' (entry i (snd (drag' lay i m))) = dragListenerInstalled' (entry i m)"
    unfolding d using ro(3) i e1(4) by (simp add: snd_onEntry)
  show "video (entry i (snd (drag' lay i m))) = video (entry i m)"
    unfolding d using ro(4) i e1(5) by (simp add: snd_onEntry)
  show "dragTicks (entry i (snd (drag' lay i m))) = dragTicks (entry i m) + 1"
    unfolding d using ro(5) i e1(6) by (simp add: snd_onEntry)
  show "hasDockClass (entry i (snd (drag' lay i m)))"
    unfolding d using ro(7) i cls by (simp add: snd_onEntry)
qed

lemma animateDocking_first_entry:
  assumes i: "i < length (entries m)"
    and r: "initialRect' (entry i m) = Some r" "height r \<noteq> 0"
    and el: "internalElement' (entry i m) = Some el" "classList_contains el DOCK_CLASS"
    and ld: "loaded' (entry i m)"
    and ni: "\<not> dragListenerInstalled' (entry i m)" and nd: "\<not> isDismissed' (entry i m)"
    and v0: "visibleHeight' (entry i m) = 0"
  shows "fst (animateDocking' lay i m) = None"
    and "dockingState' (entry i (snd (animateDocking' lay i m))) = DOCKED"
    and "draggingMask' (entry i (snd (animateDocking' lay i m))) \<noteq> None"
    and "dragListenerInstalled' (entry i (snd (animateDocking' lay i m)))"
    and "video (entry i (snd (animateDocking' lay i m))) = video (entry i m)"
    and "dragTicks (entry i (snd (animateDocking' lay i m))) = dragTicks (entry i m) + 1"
    and "hasDockClass (entry i (snd (animateDocking' lay i m)))"
proof -
  have sc: "scrollMap' (entry i m) DOCK_SCALE 1 False = Inr (Some DOCK_SCALE)"
    using r v0 by (simp add: scrollMap'_def mapRange_def)
  obtain a b c d where abcd: "calcDockOffsetXLeft (entry i m) = Inr a"
      "calcDockOffsetXRight lay (entry i m) = Inr b"
      "calcDockOffsetYTop lay (entry i m) = Inr c" "calcDockOffsetYBottom lay (entry i m) = Inr d"
    using r(1)
    by (auto simp: calcDockOffsetXLeft_def calcDockOffsetXRight_def calcDockOffsetYTop_def
        calcDockOffsetYBottom_def scrollMap'_def Let_def)
  define el1 where "el1 = setStyles el
                               [(''transform'', Transform
                                   (case minimizePosition' (entry i m) of
                                      TOP_LEFT \<Rightarrow> Some (a, c)
                                    | TOP_RIGHT \<Rightarrow> Some (b, c)
                                    | BOTTOM_LEFT \<Rightarrow> Some (a, d)
                                    | BOTTOM_RIGHT \<Rightarrow> Some (b, d)
                                    | POS_INLINE \<Rightarrow> None) (Some DOCK_SCALE)),
                                (''transformOrigin'', Lit ''top left''),
                                (''bottom'', Lit ''auto''),
                                (''top'', Lit ''0px''),
                                (''right'', Lit ''auto''),
                                (''left'', Lit ''0px'')]"
  define e2 where "e2 = (entry i m)\<lparr>internalElement' := Some el1, dockingState' := DOCKED\<rparr>"
  define p where "p = \<lparr>x = left (minimizedRect lay), y = top' (minimizedRect lay)\<rparr>"
  define e3 where "e3 = e2\<lparr>dragCoordinates' := (dragCoordinates' e2)\<lparr>initial := p, position := p, previous := p\<rparr>,
                        draggingMask' := Some (createDraggingMask' el1),
                        dragListenerInstalled' := True\<rparr>"
  define m3 where "m3 = setEntry i e3 m"
  have ad: "animateDocking' lay i m = drag' lay i m3"
    using sc abcd el(1) ni i
    by (simp add: animateDocking'_def Let_def assertElement_def onEntry_def initializeDragging'_def
        el1_def e2_def e3_def m3_def p_def ok_def)
  have i3: "i < length (entries m3)" using i by (simp add: m3_def)
  have ent: "entry i m3 = e3" using i by (simp add: m3_def)
  have dr: "draggable (entry i m3)"
    using ld v0 el(2) by (simp add: ent draggable_def e3_def e2_def el1_def)
  have mk: "draggingMask' (entry i m3) \<noteq> None" by (simp add: ent e3_def)
  have nd3: "\<not> isDismissed' (entry i m3)" using nd by (simp add: ent e3_def e2_def)
  note dro = drag_running[OF i3 dr mk nd3, of lay]
  show "fst (animateDocking' lay i m) = None" unfolding ad by (rule dro(1))
  show "dockingState' (entry i (snd (animateDocking' lay i m))) = DOCKED"
    unfolding ad by (rule dro(2))
  show "draggingMask' (entry i (snd (animateDocking' lay i m))) \<noteq> None"
    unfolding ad by (rule dro(3))
  show "dragListenerInstalled' (entry i (snd (animateDocking' lay i m)))"
    unfolding ad using dro(4) by (simp add: ent e3_def)
  show "video (entry i (snd (animateDocking' lay i m))) = video (entry i m)"
    unfolding ad using dro(5) by (simp add: ent e3_def e2_def)
  show "dragTicks (entry i (snd (animateDocking' lay i m))) = dragTicks (entry i m) + 1"
    unfolding ad using dro(6) by (simp add: ent e3_def e2_def)
  show "hasDockClass (entry i (snd (animateDocking' lay i m)))"
    unfolding ad by (rule dro(7))
qed

lemma animateDocking_docked_only_if:
  assumes "i < length (entries m)" and "dockingState' (entry i m) \<noteq> DOCKED"
    and "dockingState' (entry i (snd (animateDocking' lay i m))) = DOCKED"
  shows "scrollMap' (entry i m) DOCK_SCALE 1 False = Inr (Some DOCK_SCALE)"
proof (rule ccontr)
  assume ne: "scrollMap' (entry i m) DOCK_SCALE 1 False \<noteq> Inr (Some DOCK_SCALE)"
  have "dockingState' (entry i (snd (animateDocking' lay i m))) \<noteq> DOCKED"
    using assms(1,2) ne
    by (auto simp: animateDocking'_def Let_def snd_bindE split: sum.splits)
  then show False using assms(3) by simp
qed

text \<open>
  Claim C7. The transition from DOCKING to DOCKED occurs exactly when the computed
  scale has reached \<open>DOCK_SCALE\<close>, and on entry to DOCKED the controls are hidden, the
  minimizing marker class is on the element, and the drag controller is installed and
  its loop started. The first part holds (\<open>animateDocking_docked_only_if\<close>, and
  \<open>animateDocking_first_entry\<close> for the converse), and so does all of it on the first
  entry after the video was inline (\<open>animateDocking_first_entry\<close>). It fails when the
  video is docked for a second time without having been inline in between:
  \<^verbatim>\<open>finishDragging_\<close> has removed the dragging mask and left
  \<^verbatim>\<open>dragListenerInstalled_\<close> set, so \<^verbatim>\<open>initializeDragging_\<close> returns at once, the
  mask stays \<^verbatim>\<open>null\<close>, and \<^verbatim>\<open>drag_\<close> throws on it before it schedules its next run.
  The theorem evaluates that sequence: the video is docked with the loop running, is
  scrolled partly back (DOCKING, mask removed, loop stopped), and is scrolled out
  again; it is DOCKED, with the class and with hidden controls, without a mask and
  with no tick of the loop pending.
\<close>

theorem C7_redock_after_partial_undock:
  "run VideoManager_new events_redock_prefix = Some (state_after events_redock_prefix)
   \<and> dockingState' (entry 0 (state_after (events_docked @ [DragTick 0 layout0]))) = DOCKED
   \<and> draggingMask' (entry 0 (state_after (events_docked @ [DragTick 0 layout0]))) \<noteq> None
   \<and> dragTicks (entry 0 (state_after (events_docked @ [DragTick 0 layout0]))) = 1
   \<and> dockingState' (entry 0 (state_after events_redock_prefix)) = DOCKING
   \<and> hasDockClass (entry 0 (state_after events_redock_prefix))
   \<and> lastControlsCall (video (entry 0 (state_after events_redock_prefix))) = Some HideControls
   \<and> dragListenerInstalled' (entry 0 (state_after events_redock_prefix))
   \<and> draggingMask' (entry 0 (state_after events_redock_prefix)) = None
   \<and> dragTicks (entry 0 (state_after events_redock_prefix)) = 0
   \<and> enabled (state_after events_redock_prefix) (PositionChanged 0 layout0 posTop)
   \<and> fst (onDockableVideoPositionChanged layout0 posTop 0 (state_after events_redock_prefix))
        = Some (AssertionError ''Element expected'')
   \<and> scrollMap' (entry 0 (step (state_after events_redock_prefix) (PositionChanged 0 layout0 posTop)))
         DOCK_SCALE 1 False = Inr (Some DOCK_SCALE)
   \<and> dockingState' (entry 0 (step (state_after events_redock_prefix) (PositionChanged 0 layout0 posTop))) = DOCKED
   \<and> draggingMask' (entry 0 (step (state_after events_redock_prefix) (PositionChanged 0 layout0 posTop))) = None
   \<and> dragTicks (entry 0 (step (state_after events_redock_prefix) (PositionChanged 0 layout0 posTop))) = 0"
  by code_simp

theorem C7_redock_after_partial_undock_witness:
  "dockingState' (entry 0 (step (state_after events_redock_prefix) (PositionChanged 0 layout0 posTop))) = DOCKED
   \<and> draggingMask' (entry 0 (step (state_after events_redock_prefix) (PositionChanged 0 layout0 posTop))) = None
   \<and> dragTicks (entry 0 (step (state_after events_redock_prefix) (PositionChanged 0 layout0 posTop))) = 0
   \<and> fst (onDockableVideoPositionChanged layout0 posTop 0 (state_after events_redock_prefix))
        = Some (AssertionError ''Element expected'')"
  using C7_redock_after_partial_undock by simp

section \<open>The docking scale\<close>

lemma scrollMap_scale:
  assumes "initialRect' e = Some r" "height r \<noteq> 0"
  shows "scrollMap' e DOCK_SCALE 1 False
         = Inr (Some (visibleHeight' e * (1 - DOCK_SCALE) / height r + DOCK_SCALE))"
  using assms by (simp add: scrollMap'_def mapRange_def)

lemma snd_andThen_invariant:
  assumes "Q (snd r)" and "\<And>s. Q s \<Longrightarrow> Q (snd (f s))"
  shows "Q (snd (andThen r f))"
  using assms by (cases r) (auto simp: andThen_def split: option.splits)

lemma appliedScale_animateSnap [simp]:
  "appliedScale (snd (animateSnap' ref a b e)) = appliedScale e"
  by (simp add: animateSnap'_def bindE_def assertElement_def appliedScale_def
      split: option.splits sum.splits)

lemma appliedScale_calcSnapCorner [simp]:
  "appliedScale (calcSnapCorner' lay mr e) = appliedScale e"
  by (simp add: calcSnapCorner'_def Let_def appliedScale_def)

lemma appliedScale_snapToCorners [simp]:
  "appliedScale (snd (drag_snapToCorners lay e)) = appliedScale e"
  by (simp add: drag_snapToCorners_def Let_def snd_andThen_preserves[where Q=appliedScale])
     (simp add: appliedScale_def)

lemma appliedScale_dragMove:
  assumes "appliedScale e = Some DOCK_SCALE"
  shows "appliedScale (snd (dragMove' ref e)) = Some DOCK_SCALE"
  using assms
  by (cases ref)
     (auto simp: dragMove'_def bindE_def assertElement_def Let_def deref_def assignRef_def
        appliedScale_def getStyle_def setStyles_def map_of_setStyle
        split: option.splits sum.splits)

lemma appliedScale_updatePosition:
  assumes "appliedScale e = Some DOCK_SCALE"
  shows "appliedScale (snd (drag_updatePosition e)) = Some DOCK_SCALE"
  using assms
  by (auto simp: drag_updatePosition_def
      intro!: snd_andThen_invariant[where Q="\<lambda>s. appliedScale s = Some DOCK_SCALE"]
        appliedScale_dragMove)

lemma appliedScale_rerun [simp]:
  "appliedScale (snd (drag_rerun e)) = appliedScale e"
  by (simp add: drag_rerun_def appliedScale_def)

lemma appliedScale_rest:
  assumes "appliedScale e = Some DOCK_SCALE"
  shows "appliedScale (snd (andThen (andThen (drag_snapToCorners lay e) drag_updatePosition) drag_rerun))
           = Some DOCK_SCALE"
  by (intro snd_andThen_invariant[where Q="\<lambda>s. appliedScale s = Some DOCK_SCALE"])
     (simp_all add: assms appliedScale_updatePosition)

lemma drag_keeps_scale:
  assumes "i < length (entries m)" and "appliedScale (entry i m) = Some DOCK_SCALE"
    and "isDismissed' (entry i m) \<longrightarrow> isDragging' (entry i m)"
  shows "appliedScale (entry i (snd (drag' lay i m))) = Some DOCK_SCALE"
proof -
  have k: "\<And>e1. appliedScale e1 = Some DOCK_SCALE \<Longrightarrow>
      appliedScale (entry i (snd (onEntry i
        (\<lambda>e1. andThen (andThen (drag_snapToCorners lay e1) drag_updatePosition) drag_rerun)
        (setEntry i e1 m)))) = Some DOCK_SCALE"
    using assms(1) by (simp add: snd_onEntry appliedScale_rest)
  have u: "\<And>f. appliedScale ((entry i m)\<lparr>dragCoordinates' := f\<rparr>) = Some DOCK_SCALE"
      "\<And>f. appliedScale ((entry i m)\<lparr>dragCoordinates' := f, isDismissed' := True\<rparr>) = Some DOCK_SCALE"
    using assms(2) by (simp_all add: appliedScale_def)
  show ?thesis
  proof (cases "internalElement' (entry i m)")
    case None
    then show ?thesis using assms(2) by (simp add: drag'_def)
  next
    case (Some el)
    show ?thesis
    proof (cases "\<not> loaded' (entry i m) \<or> visibleHeight' (entry i m) \<noteq> 0
               \<or> \<not> classList_contains el DOCK_CLASS \<or> dockingState' (entry i m) \<noteq> DOCKED")
      case True
      then show ?thesis using Some assms(2) by (auto simp: drag'_def Let_def)
    next
      case False
      show ?thesis
      proof (cases "isDragging' (entry i m)")
        case True
        then show ?thesis using Some False
          by (simp add: drag'_def Let_def k u)
      next
        case nd: False
        then have "\<not> isDismissed' (entry i m)" using assms(3) by simp
        then show ?thesis using Some False nd
          by (simp add: drag'_def Let_def k u)
      qed
    qed
  qed
qed

lemma animateDocking_applied:
  assumes "i < length (entries m)" and "initialRect' (entry i m) = Some r" and "height r \<noteq> 0"
    and "internalElement' (entry i m) = Some el"
    and "isDismissed' (entry i m) \<longrightarrow> isDragging' (entry i m)"
  shows "Inr (appliedScale (entry i (snd (animateDocking' lay i m))))
           = scrollMap' (entry i m) DOCK_SCALE 1 False"
proof -
  define s where "s = visibleHeight' (entry i m) * (1 - DOCK_SCALE) / height r + DOCK_SCALE"
  have sc: "scrollMap' (entry i m) DOCK_SCALE 1 False = Inr (Some s)"
    using assms(2,3) by (simp add: scrollMap'_def mapRange_def s_def)
  obtain a b c d where abcd: "calcDockOffsetXLeft (entry i m) = Inr a"
      "calcDockOffsetXRight lay (entry i m) = Inr b"
      "calcDockOffsetYTop lay (entry i m) = Inr c" "calcDockOffsetYBottom lay (entry i m) = Inr d"
    using assms(2)
    by (auto simp: calcDockOffsetXLeft_def calcDockOffsetXRight_def calcDockOffsetYTop_def
        calcDockOffsetYBottom_def scrollMap'_def Let_def)
  define tr where "tr = (case minimizePosition' (entry i m) of
                                      TOP_LEFT \<Rightarrow> Some (a, c)
                                    | TOP_RIGHT \<Rightarrow> Some (b, c)
                                    | BOTTOM_LEFT \<Rightarrow> Some (a, d)
                                    | BOTTOM_RIGHT \<Rightarrow> Some (b, d)
                                    | POS_INLINE \<Rightarrow> None)"
  define el1 where "el1 = setStyles el
                               [(''transform'', Transform tr (Some s)),
                                (''transformOrigin'', Lit ''top left''),
                                (''bottom'', Lit ''auto''),
                                (''top'', Lit ''0px''),
                                (''right'', Lit ''auto''),
                                (''left'', Lit ''0px'')]"
  define e1 where "e1 = (entry i m)\<lparr>internalElement' := Some el1\<rparr>"
  have as1: "appliedScale e1 = Some s"
    by (simp add: e1_def el1_def appliedScale_def getStyle_def setStyles_def map_of_setStyle)
  show ?thesis
  proof (cases "s = DOCK_SCALE")
    case False
    have "animateDocking' lay i m = ok (setEntry i ((finishDragging' e1)\<lparr>dockingState' := DOCKING\<rparr>) m)"
      using sc abcd assms(4) False
      by (simp add: animateDocking'_def Let_def assertElement_def e1_def el1_def tr_def)
    then have "appliedScale (entry i (snd (animateDocking' lay i m))) = Some s"
      using assms(1) as1
      by (simp add: finishDragging'_def removeDraggingMask'_def appliedScale_def)
    then show ?thesis using sc by simp
  next
    case True
    define e2 where "e2 = e1\<lparr>dockingState' := DOCKED\<rparr>"
    obtain e3 where i3: "initializeDragging' lay e2 = ok e3"
      and e3: "internalElement' e3 = Some el1" "isDismissed' e3 = isDismissed' (entry i m)"
        "isDragging' e3 = isDragging' (entry i m)"
      by (cases "dragListenerInstalled' e2")
         (auto simp: initializeDragging'_def e2_def e1_def Let_def)
    have ad: "animateDocking' lay i m = drag' lay i (setEntry i e3 m)"
      using sc abcd assms(4) True i3
      by (simp add: animateDocking'_def Let_def assertElement_def e1_def el1_def tr_def e2_def
          onEntry_def assms(1) ok_def)
    have i': "i < length (entries (setEntry i e3 m))" using assms(1) by simp
    have as3: "appliedScale (entry i (setEntry i e3 m)) = Some DOCK_SCALE"
      using assms(1) e3(1) True
      by (simp add: appliedScale_def el1_def getStyle_def setStyles_def map_of_setStyle)
    have dm: "isDismissed' (entry i (setEntry i e3 m)) \<longrightarrow> isDragging' (entry i (setEntry i e3 m))"
      using assms(1,5) e3 by simp
    show ?thesis
      unfolding ad using drag_keeps_scale[OF i' as3 dm, of lay] sc True by simp
  qed
qed

lemma setEntry_entry:
  "i < length (entries m) \<Longrightarrow> setEntry i (entry i m) m = m"
  by (cases "entries' m") (simp_all add: setEntry_def entry_def entries_def)

text \<open>
  Claim C3. During the docking animation the scale factor that \<^verbatim>\<open>animateDocking_\<close>
  applies to the element is the linear map of the visible height from
  \<open>[0, initialRect.height]\<close> to \<open>[DOCK_SCALE, 1]\<close>: whatever the visible height \<open>v\<close>, the
  \<^verbatim>\<open>transform\<close> style that the handler leaves carries the factor
  \<open>DOCK_SCALE + (v - 0) / (height - 0) * (1 - DOCK_SCALE)\<close>; it is \<open>DOCK_SCALE\<close> at visible
  height 0 (where the handler goes on into \<^verbatim>\<open>initializeDragging_\<close> and \<^verbatim>\<open>drag_\<close>, which
  keep the factor), it is 1 at the initial height, and it does not decrease when the
  visible height grows. The factor is the value of \<^verbatim>\<open>scrollMap_(DOCK_SCALE, 1)\<close>. The
  initial height is positive (for a height of zero the source interval is a point and
  the map is undefined), and no dismissal is pending: when the element was dragged out
  of the viewport and released, \<^verbatim>\<open>drag_\<close> undocks the video in the same handler and
  clears the style, and nothing is animated any more.
\<close>

theorem C3_docking_scale_linear:
  assumes "i < length (entries m)" and "initialRect' (entry i m) = Some r" and "0 < height r"
    and "internalElement' (entry i m) = Some el"
    and "isDismissed' (entry i m) \<longrightarrow> isDragging' (entry i m)"
  shows "(\<forall>v. appliedScaleAt lay i m v
               = Some (DOCK_SCALE + (v - 0) / (height r - 0) * (1 - DOCK_SCALE)))
    \<and> appliedScaleAt lay i m 0 = Some DOCK_SCALE
    \<and> appliedScaleAt lay i m (height r) = Some 1
    \<and> (\<forall>v w. v \<le> w \<longrightarrow>
          (\<exists>s t. appliedScaleAt lay i m v = Some s \<and> appliedScaleAt lay i m w = Some t \<and> s \<le> t))
    \<and> appliedScale (entry i (snd (animateDocking' lay i m)))
         = appliedScaleAt lay i m (visibleHeight' (entry i m))
    \<and> Inr (appliedScale (entry i (snd (animateDocking' lay i m))))
         = scrollMap' (entry i m) DOCK_SCALE 1 False
    \<and> (\<forall>v. Inr (appliedScaleAt lay i m v)
              = scrollMap' ((entry i m)\<lparr>visibleHeight' := v\<rparr>) DOCK_SCALE 1 False)"
proof -
  have h: "height r \<noteq> 0" using assms(3) by simp
  have pos: "0 \<le> (1 - DOCK_SCALE) / height r"
    using assms(3) by (simp add: DOCK_SCALE_def)
  have link: "Inr (appliedScaleAt lay i m v)
               = scrollMap' ((entry i m)\<lparr>visibleHeight' := v\<rparr>) DOCK_SCALE 1 False" for v
  proof -
    define mv where "mv = setEntry i ((entry i m)\<lparr>visibleHeight' := v\<rparr>) m"
    have iv: "i < length (entries mv)" using assms(1) by (simp add: mv_def)
    have ev: "entry i mv = (entry i m)\<lparr>visibleHeight' := v\<rparr>" using assms(1) by (simp add: mv_def)
    have "Inr (appliedScale (entry i (snd (animateDocking' lay i mv))))
            = scrollMap' (entry i mv) DOCK_SCALE 1 False"
      by (rule animateDocking_applied[OF iv _ h]) (use assms(2,4,5) in \<open>simp_all add: ev\<close>)
    then show ?thesis by (simp add: appliedScaleAt_def mv_def[symmetric] ev)
  qed
  have eq: "appliedScaleAt lay i m v = Some (v * ((1 - DOCK_SCALE) / height r) + DOCK_SCALE)" for v
    using link[of v] scrollMap_scale[of "(entry i m)\<lparr>visibleHeight' := v\<rparr>" r] assms(2) h by simp
  have cur: "appliedScale (entry i (snd (animateDocking' lay i m)))
         = appliedScaleAt lay i m (visibleHeight' (entry i m))"
    using assms(1) by (simp add: appliedScaleAt_def setEntry_entry)
  have mono: "\<exists>s t. appliedScaleAt lay i m v = Some s \<and> appliedScaleAt lay i m w = Some t \<and> s \<le> t"
    if "v \<le> w" for v w
  proof -
    have "v * ((1 - DOCK_SCALE) / height r) \<le> w * ((1 - DOCK_SCALE) / height r)"
      using that pos by (rule mult_right_mono)
    then show ?thesis by (simp add: eq)
  qed
  show ?thesis
  proof (intro conjI allI impI)
    show "appliedScaleAt lay i m v
               = Some (DOCK_SCALE + (v - 0) / (height r - 0) * (1 - DOCK_SCALE))" for v
      by (simp add: eq)
    show "appliedScaleAt lay i m 0 = Some DOCK_SCALE" by (simp add: eq)
    show "appliedScaleAt lay i m (height r) = Some 1" using h by (simp add: eq)
    show "\<exists>s t. appliedScaleAt lay i m v = Some s \<and> appliedScaleAt lay i m w = Some t \<and> s \<le> t"
      if "v \<le> w" for v w using that by (rule mono)
    show "appliedScale (entry i (snd (animateDocking' lay i m)))
         = appliedScaleAt lay i m (visibleHeight' (entry i m))" by (rule cur)
    show "Inr (appliedScale (entry i (snd (animateDocking' lay i m))))
         = scrollMap' (entry i m) DOCK_SCALE 1 False"
      using animateDocking_applied[OF assms(1,2) h assms(4,5)] .
    show "Inr (appliedScaleAt lay i m v)
              = scrollMap' ((entry i m)\<lparr>visibleHeight' := v\<rparr>) DOCK_SCALE 1 False" for v
      by (rule link)
  qed
qed

theorem C3_docking_scale_linear_witness:
  "0 < length (entries (state_after (events_playing @ [PositionChanged 0 layout0 posPartial])))
   \<and> initialRect' (entry 0 (state_after (events_playing @ [PositionChanged 0 layout0 posPartial]))) = Some rect0
   \<and> 0 < height rect0
   \<and> \<not> isDismissed' (entry 0 (state_after (events_playing @ [PositionChanged 0 layout0 posPartial])))
   \<and> visibleHeight' (entry 0 (state_after (events_playing @ [PositionChanged 0 layout0 posPartial]))) = 100
   \<and> appliedScaleAt layout0 0 (state_after (events_playing @ [PositionChanged 0 layout0 posPartial])) 0
        = Some (6 / 10)
   \<and> appliedScaleAt layout0 0 (state_after (events_playing @ [PositionChanged 0 layout0 posPartial])) 50
        = Some (7 / 10)
   \<and> appliedScaleAt layout0 0 (state_after (events_playing @ [PositionChanged 0 layout0 posPartial])) 200
        = Some 1
   \<and> appliedScale (entry 0 (snd (animateDocking' layout0 0
        (state_after (events_playing @ [PositionChanged 0 layout0 posPartial]))))) = Some (8 / 10)"
proof -
  define s where "s = state_after (events_playing @ [PositionChanged 0 layout0 posPartial])"
  have h1: "0 < length (entries s)" unfolding s_def by code_simp
  have h2: "initialRect' (entry 0 s) = Some rect0" unfolding s_def by code_simp
  have h3: "0 < height rect0" by (simp add: rect0_def)
  have h4: "internalElement' (entry 0 s) = Some (the (internalElement' (entry 0 s)))"
    unfolding s_def by code_simp
  have h5: "\<not> isDismissed' (entry 0 s)" unfolding s_def by code_simp
  have h6: "visibleHeight' (entry 0 s) = 100" unfolding s_def by code_simp
  have h7: "isDismissed' (entry 0 s) \<longrightarrow> isDragging' (entry 0 s)" using h5 by simp
  note inst = C3_docking_scale_linear[OF h1 h2 h3 h4 h7, of layout0]
  have hr: "height rect0 = 200" by (simp add: rect0_def)
  have a: "appliedScaleAt layout0 0 s 0 = Some (6 / 10)"
    using inst[THEN conjunct2, THEN conjunct1] by (simp add: DOCK_SCALE_def)
  have b: "appliedScaleAt layout0 0 s 50 = Some (7 / 10)"
    using inst[THEN conjunct1, rule_format, of 50] hr by (simp add: DOCK_SCALE_def)
  have c: "appliedScaleAt layout0 0 s 200 = Some 1"
    using inst[THEN conjunct2, THEN conjunct2, THEN conjunct1] hr by simp
  have "appliedScaleAt layout0 0 s 100 = Some (8 / 10)"
    using inst[THEN conjunct1, rule_format, of 100] hr by (simp add: DOCK_SCALE_def)
  then have d: "appliedScale (entry 0 (snd (animateDocking' layout0 0 s))) = Some (8 / 10)"
    using inst[THEN conjunct2, THEN conjunct2, THEN conjunct2, THEN conjunct2, THEN conjunct1] h6
    by simp
  show ?thesis
    using h1 h2 h3 h5 h6 a b c d unfolding s_def by simp
qed

section \<open>Snapping to a corner\<close>

lemma sq_near_low: "0 \<le> (w::real) \<Longrightarrow> c \<le> w / 2 \<Longrightarrow> (c - 0)\<^sup>2 \<le> (c - w)\<^sup>2"
proof -
  assume a: "0 \<le> w" "c \<le> w / 2"
  have "(c - w)\<^sup>2 - c\<^sup>2 = w * (w - 2 * c)" by (simp add: power2_eq_square algebra_simps)
  moreover have "0 \<le> w * (w - 2 * c)" using a by (intro mult_nonneg_nonneg) simp_all
  ultimately show ?thesis by simp
qed

lemma sq_near_high: "0 \<le> (w::real) \<Longrightarrow> w / 2 \<le> c \<Longrightarrow> (c - w)\<^sup>2 \<le> (c - 0)\<^sup>2"
proof -
  assume a: "0 \<le> w" "w / 2 \<le> c"
  have "c\<^sup>2 - (c - w)\<^sup>2 = w * (2 * c - w)" by (simp add: power2_eq_square algebra_simps)
  moreover have "0 \<le> w * (2 * c - w)" using a by (intro mult_nonneg_nonneg) simp_all
  ultimately show ?thesis by simp
qed

lemma minimizePosition_animateSnap [simp]:
  "minimizePosition' (snd (animateSnap' ref a b e)) = minimizePosition' e"
  by (simp add: animateSnap'_def bindE_def assertElement_def split: option.splits sum.splits)

lemma minimizePosition_assignRef [simp]: "minimizePosition' (assignRef ref el e) = minimizePosition' e"
  by (cases ref) (simp_all add: assignRef_def)

lemma minimizePosition_dragMove [simp]:
  "minimizePosition' (snd (dragMove' ref e)) = minimizePosition' e"
  by (simp add: dragMove'_def bindE_def assertElement_def Let_def split: option.splits sum.splits)

lemma minimizePosition_updatePosition [simp]:
  "minimizePosition' (snd (drag_updatePosition e)) = minimizePosition' e"
  by (simp add: drag_updatePosition_def snd_andThen_preserves[where Q=minimizePosition'])

lemma minimizePosition_rerun [simp]:
  "minimizePosition' (snd (drag_rerun e)) = minimizePosition' e"
  by (simp add: drag_rerun_def)

lemma snapState_assignRef [simp]:
  "isSnapping' (assignRef ref el e) = isSnapping' e"
  "snapCallbacks (assignRef ref el e) = snapCallbacks e"
  by (cases ref; simp add: assignRef_def)+

lemma snapState_dragMove [simp]:
  "isSnapping' (snd (dragMove' ref e)) = isSnapping' e"
  "snapCallbacks (snd (dragMove' ref e)) = snapCallbacks e"
  by (simp_all add: dragMove'_def bindE_def assertElement_def Let_def split: option.splits sum.splits)

lemma snapState_updatePosition [simp]:
  "isSnapping' (snd (drag_updatePosition e)) = isSnapping' e"
  "snapCallbacks (snd (drag_updatePosition e)) = snapCallbacks e"
  by (simp_all add: drag_updatePosition_def snd_andThen_preserves[where Q=isSnapping']
      snd_andThen_preserves[where Q=snapCallbacks])

lemma snapState_rerun [simp]:
  "isSnapping' (snd (drag_rerun e)) = isSnapping' e"
  "snapCallbacks (snd (drag_rerun e)) = snapCallbacks e"
  by (simp_all add: drag_rerun_def)

lemma snapState_animateSnap [simp]:
  "isSnapping' (snd (animateSnap' ref a b e)) = isSnapping' e"
  by (simp add: animateSnap'_def bindE_def assertElement_def split: option.splits sum.splits)

lemma snapToCorners_target:
  assumes "\<not> isDragging' e" and "\<not> isSnapping' e"
    and "\<bar>x (velocity (dragCoordinates' e))\<bar> \<le> STOP_THRESHOLD"
    and "\<bar>y (velocity (dragCoordinates' e))\<bar> \<le> STOP_THRESHOLD"
    and "right = (x (position (dragCoordinates' e)) + width (minimizedRect lay) / 2 \<ge> getWidth lay / 2)"
    and "low = (y (position (dragCoordinates' e)) + height (minimizedRect lay) / 2 \<ge> getHeight lay / 2)"
    and "t = \<lparr>x = (if right then getWidth lay - width (minimizedRect lay) - DOCK_MARGIN else DOCK_MARGIN),
              y = (if low then getHeight lay - height (minimizedRect lay) - DOCK_MARGIN else DOCK_MARGIN)\<rparr>"
  shows "minimizePosition' (snd (drag_snapToCorners lay e))
           = (if right then (if low then BOTTOM_RIGHT else TOP_RIGHT)
              else (if low then BOTTOM_LEFT else TOP_LEFT))"
    and "isSnapping' (snd (drag_snapToCorners lay e)) = (position (dragCoordinates' e) \<noteq> t)"
    and "draggingMask' e \<noteq> None \<Longrightarrow> internalElement' e \<noteq> None \<Longrightarrow>
         snapCallbacks (snd (drag_snapToCorners lay e))
           = (if position (dragCoordinates' e) \<noteq> t then snapCallbacks e @ [t, t] else snapCallbacks e)"
proof -
  have pt: "(position (dragCoordinates' e) \<noteq> t)
            = (x (position (dragCoordinates' e)) \<noteq> x t \<or> y (position (dragCoordinates' e)) \<noteq> y t)"
    by (cases "position (dragCoordinates' e)"; cases t) auto
  show "minimizePosition' (snd (drag_snapToCorners lay e))
           = (if right then (if low then BOTTOM_RIGHT else TOP_RIGHT)
              else (if low then BOTTOM_LEFT else TOP_LEFT))"
    using assms(1-6)
    by (simp add: drag_snapToCorners_def Let_def calcSnapCorner'_def
        snd_andThen_preserves[where Q=minimizePosition'])
  show "isSnapping' (snd (drag_snapToCorners lay e)) = (position (dragCoordinates' e) \<noteq> t)"
    unfolding pt using assms(1-7)
    by (auto simp: drag_snapToCorners_def Let_def calcSnapCorner'_def
        snd_andThen_preserves[where Q=isSnapping'])
  show "snapCallbacks (snd (drag_snapToCorners lay e))
           = (if position (dragCoordinates' e) \<noteq> t then snapCallbacks e @ [t, t] else snapCallbacks e)"
    if "draggingMask' e \<noteq> None" "internalElement' e \<noteq> None"
  proof -
    have d: "deref DraggingMask e' \<noteq> None" "deref InternalElement e' \<noteq> None"
      if "draggingMask' e' = draggingMask' e" "internalElement' e' = internalElement' e" for e'
      using \<open>draggingMask' e \<noteq> None\<close> \<open>internalElement' e \<noteq> None\<close> that by (simp_all add: deref_def)
    show ?thesis
      unfolding pt using assms(1-7)
      by (auto simp: drag_snapToCorners_def Let_def calcSnapCorner'_def animateSnap_ok d)
  qed
qed

lemma drag_free_tick_rest:
  assumes "i < length (entries m)" and "draggable (entry i m)"
    and "\<not> isDragging' (entry i m)" and "\<not> isDismissed' (entry i m)"
  shows "drag' lay i m = onEntry i
           (\<lambda>e1. andThen (andThen (drag_snapToCorners lay e1) drag_updatePosition) drag_rerun)
           (setEntry i ((entry i m)\<lparr>dragCoordinates' := (dragCoordinates' (entry i m))
             \<lparr>position := \<lparr>x = x (position (dragCoordinates' (entry i m))) + x (velocity (dragCoordinates' (entry i m))),
                           y = y (position (dragCoordinates' (entry i m))) + y (velocity (dragCoordinates' (entry i m)))\<rparr>,
              velocity := \<lparr>x = x (velocity (dragCoordinates' (entry i m))) * FRICTION_COEFF,
                           y = y (velocity (dragCoordinates' (entry i m))) * FRICTION_COEFF\<rparr>\<rparr>\<rparr>) m)"
proof -
  obtain el where el: "internalElement' (entry i m) = Some el" "classList_contains el DOCK_CLASS"
    using assms(2) by (auto simp: draggable_def split: option.splits)
  have g: "loaded' (entry i m)" "visibleHeight' (entry i m) = 0" "dockingState' (entry i m) = DOCKED"
    using assms(2) by (auto simp: draggable_def)
  show ?thesis using assms(3,4) el g by (simp add: drag'_def Let_def)
qed

text \<open>
  Claim C5. On a tick of \<^verbatim>\<open>drag_\<close> for an element that is let go (not dragged, not in
  the middle of a snap, no dismissal pending) and whose velocities, after the friction
  of this tick, are at or below the stop threshold, the snap target is chosen as
  follows. With \<open>(cx, cy)\<close> the centre of the element at its new position, the corner
  \<open>c\<close> recorded in \<^verbatim>\<open>minimizePosition_\<close> is one of the four corners, found by comparing
  the centre with the centre of the viewport (the four-quadrant test, a function of the
  centre and of the size of the viewport alone), and it is the corner of the viewport
  nearest to the centre. The target \<open>t\<close> is the position that puts the element into
  that corner at the distance \<open>DOCK_MARGIN\<close> from the two edges. When the element is not
  at \<open>t\<close> already it is marked as snapping and, its mask being there, two animations
  to \<open>t\<close> are handed to \<^verbatim>\<open>animateSnap_\<close> (the mask's and the element's); when they end the
  position is \<open>t\<close>. When it is at \<open>t\<close> nothing is animated. The example of the spec,
  centre (10, 10) in a viewport of 800 by 600, gives \<open>TOP_LEFT\<close> and the target (20, 20)
  (the witness, where the corner was \<open>TOP_RIGHT\<close> before the tick).
\<close>

theorem C5_snap_to_nearest_corner:
  assumes "i < length (entries m)" and "draggable (entry i m)"
    and "\<not> isDragging' (entry i m)" and "\<not> isSnapping' (entry i m)"
    and "\<not> isDismissed' (entry i m)"
    and "\<bar>x (velocity (dragCoordinates' (entry i m))) * FRICTION_COEFF\<bar> \<le> STOP_THRESHOLD"
    and "\<bar>y (velocity (dragCoordinates' (entry i m))) * FRICTION_COEFF\<bar> \<le> STOP_THRESHOLD"
    and "e' = entry i (snd (drag' lay i m))"
    and "cx = x (position (dragCoordinates' e')) + width (minimizedRect lay) / 2"
    and "cy = y (position (dragCoordinates' e')) + height (minimizedRect lay) / 2"
    and "c = minimizePosition' e'"
    and "t = \<lparr>x = (if c = TOP_LEFT \<or> c = BOTTOM_LEFT then DOCK_MARGIN
                   else getWidth lay - width (minimizedRect lay) - DOCK_MARGIN),
              y = (if c = TOP_LEFT \<or> c = TOP_RIGHT then DOCK_MARGIN
                   else getHeight lay - height (minimizedRect lay) - DOCK_MARGIN)\<rparr>"
  shows "position (dragCoordinates' e')
         = \<lparr>x = x (position (dragCoordinates' (entry i m))) + x (velocity (dragCoordinates' (entry i m))),
            y = y (position (dragCoordinates' (entry i m))) + y (velocity (dragCoordinates' (entry i m)))\<rparr>
     \<and> c \<in> {TOP_LEFT, TOP_RIGHT, BOTTOM_LEFT, BOTTOM_RIGHT}
     \<and> c = (if cx \<ge> getWidth lay / 2
            then (if cy \<ge> getHeight lay / 2 then BOTTOM_RIGHT else TOP_RIGHT)
            else (if cy \<ge> getHeight lay / 2 then BOTTOM_LEFT else TOP_LEFT))
     \<and> viewportCorner lay c \<noteq> None
     \<and> (0 \<le> getWidth lay \<and> 0 \<le> getHeight lay \<longrightarrow>
          (\<forall>k p q. viewportCorner lay c = Some p \<and> viewportCorner lay k = Some q \<longrightarrow>
             (cx - x p)\<^sup>2 + (cy - y p)\<^sup>2 \<le> (cx - x q)\<^sup>2 + (cy - y q)\<^sup>2))
     \<and> isSnapping' e' = (position (dragCoordinates' e') \<noteq> t)
     \<and> (draggingMask' (entry i m) \<noteq> None \<longrightarrow>
          fst (drag' lay i m) = None
          \<and> snapCallbacks e'
              = (if position (dragCoordinates' e') \<noteq> t then snapCallbacks (entry i m) @ [t, t]
                 else snapCallbacks (entry i m)))
     \<and> position (dragCoordinates' (snapDone t e')) = t
     \<and> \<not> isSnapping' (snapDone t e')"
proof -
  define e1 where "e1 = (entry i m)\<lparr>dragCoordinates' := (dragCoordinates' (entry i m))
             \<lparr>position := \<lparr>x = x (position (dragCoordinates' (entry i m))) + x (velocity (dragCoordinates' (entry i m))),
                           y = y (position (dragCoordinates' (entry i m))) + y (velocity (dragCoordinates' (entry i m)))\<rparr>,
              velocity := \<lparr>x = x (velocity (dragCoordinates' (entry i m))) * FRICTION_COEFF,
                           y = y (velocity (dragCoordinates' (entry i m))) * FRICTION_COEFF\<rparr>\<rparr>\<rparr>"
  have d: "drag' lay i m = onEntry i
           (\<lambda>e1. andThen (andThen (drag_snapToCorners lay e1) drag_updatePosition) drag_rerun)
           (setEntry i e1 m)"
    unfolding e1_def by (rule drag_free_tick_rest[OF assms(1,2,3,5)])
  have ie: "internalElement' e1 \<noteq> None"
    using assms(2) by (auto simp: draggable_def e1_def split: option.splits)
  have f1: "\<not> isDragging' e1" "\<not> isSnapping' e1"
      "\<bar>x (velocity (dragCoordinates' e1))\<bar> \<le> STOP_THRESHOLD"
      "\<bar>y (velocity (dragCoordinates' e1))\<bar> \<le> STOP_THRESHOLD"
      "snapCallbacks e1 = snapCallbacks (entry i m)"
      "draggingMask' e1 = draggingMask' (entry i m)"
    using assms(3,4,6,7) by (simp_all add: e1_def)
  have e': "e' = snd (andThen (andThen (drag_snapToCorners lay e1) drag_updatePosition) drag_rerun)"
    unfolding assms(8) d using assms(1) by (simp add: snd_onEntry)
  have dc: "dragCoordinates' e' = dragCoordinates' e1" unfolding e' by simp
  have pos: "position (dragCoordinates' e')
         = \<lparr>x = x (position (dragCoordinates' (entry i m))) + x (velocity (dragCoordinates' (entry i m))),
            y = y (position (dragCoordinates' (entry i m))) + y (velocity (dragCoordinates' (entry i m)))\<rparr>"
    unfolding dc by (simp add: e1_def)
  define right where "right = (cx \<ge> getWidth lay / 2)"
  define low where "low = (cy \<ge> getHeight lay / 2)"
  define t0 where "t0 = \<lparr>x = (if right then getWidth lay - width (minimizedRect lay) - DOCK_MARGIN else DOCK_MARGIN),
              y = (if low then getHeight lay - height (minimizedRect lay) - DOCK_MARGIN else DOCK_MARGIN)\<rparr>"
  have r1: "right = (x (position (dragCoordinates' e1)) + width (minimizedRect lay) / 2 \<ge> getWidth lay / 2)"
    and l1: "low = (y (position (dragCoordinates' e1)) + height (minimizedRect lay) / 2 \<ge> getHeight lay / 2)"
    unfolding right_def low_def assms(9,10) dc by simp_all
  note st = snapToCorners_target[OF f1(1-4) r1 l1 t0_def]
  have c: "c = (if right then (if low then BOTTOM_RIGHT else TOP_RIGHT)
              else (if low then BOTTOM_LEFT else TOP_LEFT))"
    unfolding assms(11) e' using st(1)
    by (simp add: snd_andThen_preserves[where Q=minimizePosition'])
  have t: "t = t0" unfolding assms(12) t0_def using c by (auto split: if_splits)
  have sn: "isSnapping' e' = (position (dragCoordinates' e') \<noteq> t)"
    unfolding dc t e' using st(2)
    by (simp add: snd_andThen_preserves[where Q=isSnapping'])
  have mk: "fst (drag' lay i m) = None
          \<and> snapCallbacks e'
              = (if position (dragCoordinates' e') \<noteq> t then snapCallbacks (entry i m) @ [t, t]
                 else snapCallbacks (entry i m))"
    if m: "draggingMask' (entry i m) \<noteq> None"
  proof -
    have mk1: "draggingMask' e1 \<noteq> None" using m f1(6) by simp
    have ok: "fst (drag' lay i m) = None"
      unfolding d using rest_ok(1)[OF mk1 ie, of lay] assms(1) by (simp add: fst_onEntry)
    have cb: "snapCallbacks e'
           = (if position (dragCoordinates' e') \<noteq> t then snapCallbacks (entry i m) @ [t, t]
              else snapCallbacks (entry i m))"
      unfolding dc t e' using st(3)[OF mk1 ie] f1(5)
      by (simp add: snd_andThen_preserves[where Q=snapCallbacks])
    show ?thesis using ok cb by simp
  qed
  have c': "c = (if cx \<ge> getWidth lay / 2
            then (if cy \<ge> getHeight lay / 2 then BOTTOM_RIGHT else TOP_RIGHT)
            else (if cy \<ge> getHeight lay / 2 then BOTTOM_LEFT else TOP_LEFT))"
    using c by (simp add: right_def low_def)
  have near: "(cx - x p)\<^sup>2 + (cy - y p)\<^sup>2 \<le> (cx - x q)\<^sup>2 + (cy - y q)\<^sup>2"
    if w: "0 \<le> getWidth lay" "0 \<le> getHeight lay"
      and p: "viewportCorner lay c = Some p" and q: "viewportCorner lay k = Some q"
    for k p q
  proof -
    have xs: "(cx - x p)\<^sup>2 \<le> (cx - x q)\<^sup>2"
    proof (cases "cx \<ge> getWidth lay / 2")
      case True
      then have "x p = getWidth lay" using c' p by (auto simp: viewportCorner_def split: if_splits)
      moreover have "x q = 0 \<or> x q = getWidth lay"
        using q by (cases k) (auto simp: viewportCorner_def)
      ultimately show ?thesis using sq_near_high[OF w(1) True] by auto
    next
      case False
      then have "x p = 0" using c' p by (auto simp: viewportCorner_def split: if_splits)
      moreover have "x q = 0 \<or> x q = getWidth lay"
        using q by (cases k) (auto simp: viewportCorner_def)
      moreover have "cx \<le> getWidth lay / 2" using False by simp
      ultimately show ?thesis using sq_near_low[OF w(1), of cx] by auto
    qed
    have ys: "(cy - y p)\<^sup>2 \<le> (cy - y q)\<^sup>2"
    proof (cases "cy \<ge> getHeight lay / 2")
      case True
      then have "y p = getHeight lay" using c' p by (auto simp: viewportCorner_def split: if_splits)
      moreover have "y q = 0 \<or> y q = getHeight lay"
        using q by (cases k) (auto simp: viewportCorner_def)
      ultimately show ?thesis using sq_near_high[OF w(2) True] by auto
    next
      case False
      then have "y p = 0" using c' p by (auto simp: viewportCorner_def split: if_splits)
      moreover have "y q = 0 \<or> y q = getHeight lay"
        using q by (cases k) (auto simp: viewportCorner_def)
      moreover have "cy \<le> getHeight lay / 2" using False by simp
      ultimately show ?thesis using sq_near_low[OF w(2), of cy] by auto
    qed
    from xs ys show ?thesis by (rule add_mono)
  qed
  have four: "c \<in> {TOP_LEFT, TOP_RIGHT, BOTTOM_LEFT, BOTTOM_RIGHT}"
    using c' by (auto split: if_splits)
  have some: "viewportCorner lay c \<noteq> None"
    using four by (auto simp: viewportCorner_def)
  have sd: "position (dragCoordinates' (snapDone t e')) = t" "\<not> isSnapping' (snapDone t e')"
    by (simp_all add: snapDone_def)
  have n2: "0 \<le> getWidth lay \<and> 0 \<le> getHeight lay \<longrightarrow>
          (\<forall>k p q. viewportCorner lay c = Some p \<and> viewportCorner lay k = Some q \<longrightarrow>
             (cx - x p)\<^sup>2 + (cy - y p)\<^sup>2 \<le> (cx - x q)\<^sup>2 + (cy - y q)\<^sup>2)"
    using near by blast
  have m2: "draggingMask' (entry i m) \<noteq> None \<longrightarrow>
          fst (drag' lay i m) = None
          \<and> snapCallbacks e'
              = (if position (dragCoordinates' e') \<noteq> t then snapCallbacks (entry i m) @ [t, t]
                 else snapCallbacks (entry i m))"
    using mk by blast
  show ?thesis
    using pos four c' some n2 sn m2 sd by (intro conjI)
qed

theorem C5_snap_to_nearest_corner_witness:
  "run VideoManager_new events_let_go \<noteq> None
   \<and> draggable (entry 0 (state_after events_let_go))
   \<and> \<not> isDragging' (entry 0 (state_after events_let_go))
   \<and> \<not> isSnapping' (entry 0 (state_after events_let_go))
   \<and> \<not> isDismissed' (entry 0 (state_after events_let_go))
   \<and> velocity (dragCoordinates' (entry 0 (state_after events_let_go))) = \<lparr>x = 0, y = 0\<rparr>
   \<and> minimizePosition' (entry 0 (state_after events_let_go)) = TOP_RIGHT
   \<and> getWidth layout1 = 800 \<and> getHeight layout1 = 600
   \<and> x (position (dragCoordinates' (entry 0 (snd (drag' layout1 0 (state_after events_let_go))))))
        + width (minimizedRect layout1) / 2 = 10
   \<and> y (position (dragCoordinates' (entry 0 (snd (drag' layout1 0 (state_after events_let_go))))))
        + height (minimizedRect layout1) / 2 = 10
   \<and> minimizePosition' (entry 0 (snd (drag' layout1 0 (state_after events_let_go)))) = TOP_LEFT
   \<and> isSnapping' (entry 0 (snd (drag' layout1 0 (state_after events_let_go))))
   \<and> snapCallbacks (entry 0 (snd (drag' layout1 0 (state_after events_let_go))))
        = [\<lparr>x = 20, y = 20\<rparr>, \<lparr>x = 20, y = 20\<rparr>]
   \<and> position (dragCoordinates' (entry 0 (state_after
        (events_let_go @ [DragTick 0 layout1, SnapEnd 0, SnapEnd 0])))) = \<lparr>x = 20, y = 20\<rparr>"
proof -
  define s where "s = state_after events_let_go"
  define e' where "e' = entry 0 (snd (drag' layout1 0 s))"
  have r: "run VideoManager_new events_let_go \<noteq> None" by code_simp
  have h1: "0 < length (entries s)" unfolding s_def by code_simp
  have h2: "draggable (entry 0 s)" unfolding s_def by code_simp
  have h3: "draggingMask' (entry 0 s) \<noteq> None" unfolding s_def by code_simp
  have h4: "\<not> isDragging' (entry 0 s)" unfolding s_def by code_simp
  have h5: "\<not> isSnapping' (entry 0 s)" unfolding s_def by code_simp
  have h6: "\<not> isDismissed' (entry 0 s)" unfolding s_def by code_simp
  have v: "velocity (dragCoordinates' (entry 0 s)) = \<lparr>x = 0, y = 0\<rparr>" unfolding s_def by code_simp
  have p: "position (dragCoordinates' (entry 0 s)) = \<lparr>x = - 80, y = - 50\<rparr>"
    unfolding s_def by code_simp
  have cb: "snapCallbacks (entry 0 s) = []" unfolding s_def by code_simp
  have mp: "minimizePosition' (entry 0 s) = TOP_RIGHT" unfolding s_def by code_simp
  have fin: "position (dragCoordinates' (entry 0 (state_after
        (events_let_go @ [DragTick 0 layout1, SnapEnd 0, SnapEnd 0])))) = \<lparr>x = 20, y = 20\<rparr>"
    by code_simp
  have h7: "\<bar>x (velocity (dragCoordinates' (entry 0 s))) * FRICTION_COEFF\<bar> \<le> STOP_THRESHOLD"
    using v by (simp add: STOP_THRESHOLD_def)
  have h8: "\<bar>y (velocity (dragCoordinates' (entry 0 s))) * FRICTION_COEFF\<bar> \<le> STOP_THRESHOLD"
    using v by (simp add: STOP_THRESHOLD_def)
  have l: "getWidth layout1 = 800" "getHeight layout1 = 600"
      "width (minimizedRect layout1) = 180" "height (minimizedRect layout1) = 120"
    by (simp_all add: layout1_def layout0_def)
  note inst = C5_snap_to_nearest_corner[OF h1 h2 h4 h5 h6 h7 h8 e'_def refl refl refl refl]
  have pos: "position (dragCoordinates' e') = \<lparr>x = - 80, y = - 50\<rparr>"
    using inst[THEN conjunct1] p v by simp
  have c: "minimizePosition' e' = TOP_LEFT"
    using inst[THEN conjunct2, THEN conjunct2, THEN conjunct1] pos l by simp
  have sn: "isSnapping' e' \<and> snapCallbacks e' = [\<lparr>x = 20, y = 20\<rparr>, \<lparr>x = 20, y = 20\<rparr>]"
    using inst[THEN conjunct2, THEN conjunct2, THEN conjunct2, THEN conjunct2, THEN conjunct2]
      pos c cb h3
    by (simp add: DOCK_MARGIN_def)
  show ?thesis
    unfolding s_def[symmetric] e'_def[symmetric]
    using r h2 h4 h5 h6 v mp l pos c sn fin unfolding s_def[symmetric] by simp
qed

end
